theory Spec2Isabelle
  imports Complex_Main "HOL-Library.Sublist"
begin

section \<open>JavaScript values\<close>

text \<open>
  The drivers are TypeScript modules whose payloads and cached feature values are typed
  \<^verbatim>\<open>any\<close>. Feature values are JSON primitives (boolean, number, string) or absent, so
  the embedding uses the primitive values of the language. A number is a binary64 value:
  a finite one is given by the real it denotes, the others are the two infinities and NaN.
  Every arithmetic operation and every reading of a numeral rounds its exact result to
  binary64 (\<open>round64\<close> below). The sign of zero is not represented: it shows only
  in a division by zero, and every divisor in the drivers is a constant other than zero.
  A string is a list of code units below 256, which covers the Latin-1 range; the only
  white space of the language in that range is the seven characters of \<open>is_ws\<close>.
\<close>

datatype jsnum = Fin real | PInf | NInf | NaN

datatype jsval = JUndefined | JNull | JBool bool | JNum jsnum | JStr string

fun truthy :: "jsval \<Rightarrow> bool" where
  "truthy JUndefined = False"
| "truthy JNull = False"
| "truthy (JBool b) = b"
| "truthy (JNum (Fin r)) = (r \<noteq> 0)"
| "truthy (JNum NaN) = False"
| "truthy (JNum _) = True"
| "truthy (JStr s) = (s \<noteq> [])"

text \<open>\<^verbatim>\<open>a === b\<close> on primitives: same type and same value, and NaN equals nothing.\<close>

definition strict_eq :: "jsval \<Rightarrow> jsval \<Rightarrow> bool" where
  "strict_eq a b = (a = b \<and> a \<noteq> JNum NaN)"

text \<open>\<^verbatim>\<open>v != undefined\<close> (loose): false exactly for undefined and null.\<close>

definition not_nullish :: "jsval \<Rightarrow> bool" where
  "not_nullish v = (v \<noteq> JUndefined \<and> v \<noteq> JNull)"

subsection \<open>Rounding to binary64\<close>

text \<open>
  \<open>digit_count b n\<close> is the number of digits of \<open>n\<close> in base \<open>b\<close>, and
  \<open>floor_log b x\<close> the integer \<open>e\<close> with \<open>b ^ e \<le> x < b ^ (e + 1)\<close> for a
  positive \<open>x\<close>.
\<close>

definition pow2 :: "int \<Rightarrow> real" where
  "pow2 e = (if 0 \<le> e then 2 ^ nat e else 1 / 2 ^ nat (- e))"

definition pow10 :: "int \<Rightarrow> real" where
  "pow10 e = (if 0 \<le> e then 10 ^ nat e else 1 / 10 ^ nat (- e))"

fun digit_count :: "nat \<Rightarrow> nat \<Rightarrow> nat" where
  "digit_count b n = (if n = 0 \<or> b < 2 then 0 else Suc (digit_count b (n div b)))"

definition floor_log :: "nat \<Rightarrow> real \<Rightarrow> int" where
  "floor_log b x =
     (if 1 \<le> x then int (digit_count b (nat \<lfloor>x\<rfloor>)) - 1
      else - int (digit_count b (nat (\<lceil>1 / x\<rceil> - 1))))"

definition round_half_even :: "real \<Rightarrow> int" where
  "round_half_even x =
     (let f = \<lfloor>x\<rfloor>; d = x - real_of_int f
      in if d < 1 / 2 then f else if 1 / 2 < d then f + 1 else if even f then f else f + 1)"

text \<open>
  The binary64 value nearest to a real, ties to the even significand: 53 significant bits
  for a normal value, multiples of \<open>2 ^ - 1074\<close> below \<open>2 ^ - 1022\<close>, and an
  infinity from \<open>2 ^ 1024\<close> on.
\<close>

definition round64 :: "real \<Rightarrow> jsnum" where
  "round64 x =
     (if x = 0 then Fin 0
      else
        (let e = max (floor_log 2 \<bar>x\<bar>) (- 1022);
             ulp = pow2 (e - 52);
             r = real_of_int (round_half_even (x / ulp)) * ulp
         in if pow2 1024 \<le> \<bar>r\<bar> then (if 0 < x then PInf else NInf) else Fin r))"

text \<open>The value of a decimal literal of the source text, such as \<^verbatim>\<open>0.1\<close>.\<close>

definition js_literal :: "real \<Rightarrow> jsnum" where
  "js_literal x = round64 x"

subsection \<open>Arithmetic on numbers\<close>

fun js_neg :: "jsnum \<Rightarrow> jsnum" where
  "js_neg (Fin r) = Fin (- r)"
| "js_neg PInf = NInf"
| "js_neg NInf = PInf"
| "js_neg NaN = NaN"

fun js_add :: "jsnum \<Rightarrow> jsnum \<Rightarrow> jsnum" where
  "js_add NaN _ = NaN"
| "js_add _ NaN = NaN"
| "js_add (Fin a) (Fin b) = round64 (a + b)"
| "js_add PInf NInf = NaN"
| "js_add NInf PInf = NaN"
| "js_add PInf _ = PInf"
| "js_add _ PInf = PInf"
| "js_add NInf _ = NInf"
| "js_add _ NInf = NInf"

definition js_sub :: "jsnum \<Rightarrow> jsnum \<Rightarrow> jsnum" where
  "js_sub a b = js_add a (js_neg b)"

fun js_abs :: "jsnum \<Rightarrow> jsnum" where
  "js_abs (Fin r) = Fin \<bar>r\<bar>"
| "js_abs PInf = PInf"
| "js_abs NInf = PInf"
| "js_abs NaN = NaN"

definition js_sign_inf :: "bool \<Rightarrow> jsnum" where
  "js_sign_inf positive = (if positive then PInf else NInf)"

fun js_mul :: "jsnum \<Rightarrow> jsnum \<Rightarrow> jsnum" where
  "js_mul NaN _ = NaN"
| "js_mul _ NaN = NaN"
| "js_mul (Fin a) (Fin b) = round64 (a * b)"
| "js_mul (Fin a) PInf = (if a = 0 then NaN else js_sign_inf (0 < a))"
| "js_mul (Fin a) NInf = (if a = 0 then NaN else js_sign_inf (a < 0))"
| "js_mul PInf (Fin b) = (if b = 0 then NaN else js_sign_inf (0 < b))"
| "js_mul NInf (Fin b) = (if b = 0 then NaN else js_sign_inf (b < 0))"
| "js_mul PInf PInf = PInf"
| "js_mul NInf NInf = PInf"
| "js_mul PInf NInf = NInf"
| "js_mul NInf PInf = NInf"

fun js_div :: "jsnum \<Rightarrow> jsnum \<Rightarrow> jsnum" where
  "js_div NaN _ = NaN"
| "js_div _ NaN = NaN"
| "js_div (Fin a) (Fin b) =
     (if b \<noteq> 0 then round64 (a / b) else if a = 0 then NaN else js_sign_inf (0 < a))"
| "js_div (Fin a) _ = Fin 0"
| "js_div PInf (Fin b) = js_sign_inf (0 \<le> b)"
| "js_div NInf (Fin b) = js_sign_inf (b < 0)"
| "js_div _ _ = NaN"

text \<open>\<^verbatim>\<open>a > b\<close> and \<^verbatim>\<open>a >= b\<close>: false whenever an operand is NaN.\<close>

fun js_gt :: "jsnum \<Rightarrow> jsnum \<Rightarrow> bool" where
  "js_gt NaN _ = False"
| "js_gt _ NaN = False"
| "js_gt (Fin a) (Fin b) = (b < a)"
| "js_gt PInf PInf = False"
| "js_gt PInf _ = True"
| "js_gt _ PInf = False"
| "js_gt NInf _ = False"
| "js_gt _ NInf = True"

definition js_lt :: "jsnum \<Rightarrow> jsnum \<Rightarrow> bool" where
  "js_lt a b = js_gt b a"

definition js_ge :: "jsnum \<Rightarrow> jsnum \<Rightarrow> bool" where
  "js_ge a b = (a \<noteq> NaN \<and> b \<noteq> NaN \<and> \<not> js_gt b a)"

subsection \<open>Reading numbers from strings\<close>

definition is_ws :: "char \<Rightarrow> bool" where
  "is_ws c = (c \<in> set [CHR 0x09, CHR 0x0A, CHR 0x0B, CHR 0x0C, CHR 0x0D, CHR '' '', CHR 0xA0])"

fun index_of :: "'a \<Rightarrow> 'a list \<Rightarrow> nat option" where
  "index_of x [] = None"
| "index_of x (y # ys) = (if x = y then Some 0 else map_option Suc (index_of x ys))"

definition digit_val :: "char \<Rightarrow> nat option" where
  "digit_val c =
     (case index_of c ''0123456789abcdefghijklmnopqrstuvwxyz'' of
        Some d \<Rightarrow> Some d
      | None \<Rightarrow> map_option (\<lambda>d. d + 10) (index_of c ''ABCDEFGHIJKLMNOPQRSTUVWXYZ''))"

definition is_radix_digit :: "nat \<Rightarrow> char \<Rightarrow> bool" where
  "is_radix_digit r c = (case digit_val c of Some d \<Rightarrow> d < r | None \<Rightarrow> False)"

definition digits_value :: "nat \<Rightarrow> string \<Rightarrow> nat" where
  "digits_value r ds =
     foldl (\<lambda>acc c. acc * r + (case digit_val c of Some d \<Rightarrow> d | None \<Rightarrow> 0)) 0 ds"

definition read_sign :: "string \<Rightarrow> bool \<times> string" where
  "read_sign s =
     (case s of
        c # t \<Rightarrow> (if c = CHR ''-'' then (True, t) else if c = CHR ''+'' then (False, t) else (False, s))
      | [] \<Rightarrow> (False, s))"

definition has_hex_prefix :: "string \<Rightarrow> bool" where
  "has_hex_prefix s = (prefix ''0x'' s \<or> prefix ''0X'' s)"

text \<open>
  \<^verbatim>\<open>parseInt(string, radix)\<close>; radix \<open>0\<close> stands for a call without radix. Leading
  white space and a sign are skipped, a \<^verbatim>\<open>0x\<close> prefix selects radix 16, and the longest
  run of digits of the radix is read and rounded; an empty run gives NaN.
\<close>

definition parseInt_str :: "nat \<Rightarrow> string \<Rightarrow> jsnum" where
  "parseInt_str radix s =
     (let (neg, s1) = read_sign (dropWhile is_ws s);
          strip = (radix = 0 \<or> radix = 16);
          r = (if radix = 0 then 10 else radix);
          hex = (strip \<and> has_hex_prefix s1);
          s2 = (if hex then drop 2 s1 else s1);
          r2 = (if hex then 16 else r);
          ds = takeWhile (is_radix_digit r2) s2
      in if radix \<noteq> 0 \<and> (radix < 2 \<or> 36 < radix) then NaN
         else if ds = [] then NaN
         else round64 ((if neg then - 1 else 1) * real (digits_value r2 ds)))"

definition read_exponent :: "string \<Rightarrow> int \<times> string" where
  "read_exponent s =
     (case s of
        c # t \<Rightarrow>
          (if c = CHR ''e'' \<or> c = CHR ''E'' then
             (let (neg, t1) = read_sign t; ds = takeWhile (is_radix_digit 10) t1
              in if ds = [] then (0, s)
                 else ((if neg then - 1 else 1) * int (digits_value 10 ds),
                       dropWhile (is_radix_digit 10) t1))
           else (0, s))
      | [] \<Rightarrow> (0, s))"

text \<open>The longest unsigned decimal literal at the head of a string, and what follows it.\<close>

definition read_unsigned_decimal :: "string \<Rightarrow> (jsnum \<times> string) option" where
  "read_unsigned_decimal s =
     (if prefix ''Infinity'' s then Some (PInf, drop 8 s)
      else
        (let d1 = takeWhile (is_radix_digit 10) s;
             r1 = dropWhile (is_radix_digit 10) s;
             (d2, r2) = (case r1 of
                           c # t \<Rightarrow> (if c = CHR ''.''
                                     then (takeWhile (is_radix_digit 10) t,
                                           dropWhile (is_radix_digit 10) t)
                                     else ([], r1))
                         | [] \<Rightarrow> ([], r1))
         in if d1 = [] \<and> d2 = [] then None
            else (let (e, r3) = read_exponent r2
                  in Some (round64 ((real (digits_value 10 d1)
                                     + real (digits_value 10 d2) / 10 ^ length d2) * pow10 e),
                           r3))))"

definition parseFloat_str :: "string \<Rightarrow> jsnum" where
  "parseFloat_str s =
     (let (neg, s1) = read_sign (dropWhile is_ws s)
      in case read_unsigned_decimal s1 of
           None \<Rightarrow> NaN
         | Some (v, _) \<Rightarrow> (if neg then js_neg v else v))"

subsection \<open>Writing numbers as strings\<close>

fun show_nat :: "nat \<Rightarrow> string" where
  "show_nat n =
     (if n < 10 then [''0123456789'' ! n]
      else show_nat (n div 10) @ [''0123456789'' ! (n mod 10)])"

text \<open>
  \<^verbatim>\<open>Number::toString\<close> for a positive finite \<open>x\<close>: the least number \<open>k\<close> of digits
  for which some \<open>s\<close> of \<open>k\<close> digits and some \<open>n\<close> have \<open>s * 10 ^ (n - k)\<close> round to
  \<open>x\<close>; among several such pairs the one nearest to \<open>x\<close>. A candidate is a pair
  \<open>(s, n)\<close>; only the two values of \<open>n\<close> around the decimal exponent of \<open>x\<close> and
  the two values of \<open>s\<close> around \<open>x / 10 ^ (n - k)\<close> can round to \<open>x\<close>. Seventeen
  digits always suffice.
\<close>

definition fits :: "real \<Rightarrow> nat \<Rightarrow> int \<times> int \<Rightarrow> bool" where
  "fits x k c =
     (10 ^ (k - 1) \<le> fst c \<and> fst c < 10 ^ k
      \<and> round64 (real_of_int (fst c) * pow10 (snd c - int k)) = Fin x)"

definition candidates :: "real \<Rightarrow> nat \<Rightarrow> (int \<times> int) list" where
  "candidates x k =
     (let n0 = floor_log 10 x + 1
      in filter (fits x k)
           (concat (map (\<lambda>n. [(\<lfloor>x / pow10 (n - int k)\<rfloor>, n),
                               (\<lfloor>x / pow10 (n - int k)\<rfloor> + 1, n)])
                        [n0, n0 + 1])))"

definition distance :: "real \<Rightarrow> nat \<Rightarrow> int \<times> int \<Rightarrow> real" where
  "distance x k c = \<bar>real_of_int (fst c) * pow10 (snd c - int k) - x\<bar>"

fun closest :: "real \<Rightarrow> nat \<Rightarrow> (int \<times> int) list \<Rightarrow> (int \<times> int) option" where
  "closest x k [] = None"
| "closest x k (c # cs) =
     (case closest x k cs of
        None \<Rightarrow> Some c
      | Some c' \<Rightarrow>
          (if distance x k c < distance x k c'
              \<or> (distance x k c = distance x k c' \<and> even (fst c))
           then Some c else Some c'))"

fun shortest :: "real \<Rightarrow> nat \<Rightarrow> nat \<Rightarrow> nat \<times> int \<times> int" where
  "shortest x k 0 = (k, \<lfloor>x / pow10 (floor_log 10 x + 1 - int k)\<rfloor>, floor_log 10 x + 1)"
| "shortest x k (Suc fuel) =
     (case closest x k (candidates x k) of
        Some c \<Rightarrow> (k, c)
      | None \<Rightarrow> shortest x (Suc k) fuel)"

definition positive_to_string :: "real \<Rightarrow> string" where
  "positive_to_string x =
     (case shortest x 1 17 of
        (k, s, n) \<Rightarrow>
          (let ds = show_nat (nat s)
           in if int k \<le> n \<and> n \<le> 21 then ds @ replicate (nat (n - int k)) CHR ''0''
              else if 0 < n \<and> n \<le> 21 then take (nat n) ds @ ''.'' @ drop (nat n) ds
              else if - 6 < n \<and> n \<le> 0 then ''0.'' @ replicate (nat (- n)) CHR ''0'' @ ds
              else
                (let e = n - 1;
                     ex = (if e < 0 then ''-'' else ''+'') @ show_nat (nat \<bar>e\<bar>)
                 in if k = 1 then ds @ ''e'' @ ex
                    else take 1 ds @ ''.'' @ drop 1 ds @ ''e'' @ ex)))"

fun number_to_string :: "jsnum \<Rightarrow> string" where
  "number_to_string NaN = ''NaN''"
| "number_to_string PInf = ''Infinity''"
| "number_to_string NInf = ''-Infinity''"
| "number_to_string (Fin x) =
     (if x = 0 then ''0'' else if x < 0 then ''-'' @ positive_to_string (- x)
      else positive_to_string x)"

text \<open>\<^verbatim>\<open>ToString\<close>, the coercion applied by template literals and by the two readers.\<close>

fun to_string :: "jsval \<Rightarrow> string" where
  "to_string JUndefined = ''undefined''"
| "to_string JNull = ''null''"
| "to_string (JBool b) = (if b then ''true'' else ''false'')"
| "to_string (JNum n) = number_to_string n"
| "to_string (JStr s) = s"

text \<open>
  \<^verbatim>\<open>parseFloat(v)\<close> and \<^verbatim>\<open>parseInt(v)\<close> first turn \<open>v\<close> into a string and then read
  that string, so \<^verbatim>\<open>parseInt(1e21)\<close> reads \<^verbatim>\<open>1e+21\<close> and is 1.
\<close>

definition parseFloat :: "jsval \<Rightarrow> jsnum" where
  "parseFloat v = parseFloat_str (to_string v)"

definition parseInt :: "jsval \<Rightarrow> jsnum" where
  "parseInt v = parseInt_str 0 (to_string v)"

text \<open>
  \<^verbatim>\<open>ToNumber\<close>, the coercion applied by arithmetic operators. A string must be a
  numeric literal as a whole (white space trimmed; the empty string is 0).
\<close>

definition trim :: "string \<Rightarrow> string" where
  "trim s = rev (dropWhile is_ws (rev (dropWhile is_ws s)))"

definition read_radix_literal :: "nat \<Rightarrow> string \<Rightarrow> jsnum" where
  "read_radix_literal r ds =
     (if ds \<noteq> [] \<and> list_all (is_radix_digit r) ds then round64 (real (digits_value r ds))
      else NaN)"

definition string_to_number :: "string \<Rightarrow> jsnum" where
  "string_to_number s =
     (let t = trim s
      in if t = [] then Fin 0
         else if has_hex_prefix t then read_radix_literal 16 (drop 2 t)
         else if prefix ''0o'' t \<or> prefix ''0O'' t then read_radix_literal 8 (drop 2 t)
         else if prefix ''0b'' t \<or> prefix ''0B'' t then read_radix_literal 2 (drop 2 t)
         else (let (neg, t1) = read_sign t
               in case read_unsigned_decimal t1 of
                    Some (v, []) \<Rightarrow> (if neg then js_neg v else v)
                  | _ \<Rightarrow> NaN))"

fun to_number :: "jsval \<Rightarrow> jsnum" where
  "to_number JUndefined = NaN"
| "to_number JNull = Fin 0"
| "to_number (JBool b) = Fin (if b then 1 else 0)"
| "to_number (JNum n) = n"
| "to_number (JStr s) = string_to_number s"

section \<open>Data model\<close>

text \<open>
  \<^verbatim>\<open>interface Feature\<close> and \<^verbatim>\<open>interface DeviceDocument\<close>, as far as the embedded
  functions read them. The field \<^verbatim>\<open>_id\<close> is \<open>ident\<close>; it is absent on a feature template
  that the host has not stored yet. The configuration bag \<^verbatim>\<open>conf\<close> may be missing; its
  \<^verbatim>\<open>friendly_name\<close> (a topic segment) is kept apart from the scalar settings.
\<close>

datatype category = Sensor | Action

record feature =
  ident :: "string option"
  name :: string
  category :: category
  verifyvalue :: string
  unit_of :: "string option"
  icon :: "string option"
  types :: "string list"

record configuration =
  friendly_name :: "string option"
  settings :: "string \<rightharpoonup> jsval"

record device =
  device_id :: string
  conf :: "configuration option"
  features :: "feature list"

text \<open>The update object of an \<^verbatim>\<open>editDevice\<close> request.\<close>

record conf_update =
  topics :: "string list"
  searching :: bool
  entries :: "(string \<times> jsval) list"

record update =
  upd_conf :: "conf_update option"
  upd_features :: "feature list option"

text \<open>
  The message of a \<^verbatim>\<open>publishMessage\<close> request is a text or the object handed to
  \<^verbatim>\<open>JSON.stringify\<close>.
\<close>

datatype payload = Text string | Json "(string \<times> jsval) list"

text \<open>
  The requests posted to the host with \<^verbatim>\<open>parentPort.postMessage\<close>: \<^verbatim>\<open>setData\<close> with
  its optional \<^verbatim>\<open>storeInDB\<close> flag, optional status and feature values; \<^verbatim>\<open>editDevice\<close>
  with its \<^verbatim>\<open>preventRestart\<close> flag (false when the key is left out);
  \<^verbatim>\<open>publishMessage\<close> with topic and message; \<^verbatim>\<open>restartDeviceDriver\<close>.
\<close>

datatype intent =
  SetData "bool option" "string option" "(string \<times> jsval) list"
| EditDevice update bool
| PublishMessage string payload
| RestartDeviceDriver

text \<open>A feature as the host stores it, for concrete devices.\<close>

definition mk_feature :: "string \<Rightarrow> string \<Rightarrow> category \<Rightarrow> string list \<Rightarrow> feature" where
  "mk_feature i n c ts =
     \<lparr>ident = Some i, name = n, category = c, verifyvalue = [], unit_of = None,
      icon = None, types = ts\<rparr>"

section \<open>Feature directory\<close>


definition matchesTypeOrId :: "string \<Rightarrow> feature \<Rightarrow> bool" where
  "matchesTypeOrId searchString f =
     (searchString \<in> set (types f) \<or> ident f = Some searchString)"

definition getFeatureByTypeOrNameOrId :: "device \<Rightarrow> string \<Rightarrow> feature option" where
  "getFeatureByTypeOrNameOrId dev searchString =
     (case find (matchesTypeOrId searchString) (features dev) of
        Some f \<Rightarrow> Some f
      | None \<Rightarrow> find (\<lambda>f. name f = searchString) (features dev))"

text \<open>
  The resolve operation as the specification words it: three criteria tried one after
  the other, type tag first, then identifier, then display name.
\<close>

definition resolve_by_priority :: "feature list \<Rightarrow> string \<Rightarrow> feature option" where
  "resolve_by_priority fs query =
     (case find (\<lambda>f. query \<in> set (types f)) fs of
        Some f \<Rightarrow> Some f
      | None \<Rightarrow>
          (case find (\<lambda>f. ident f = Some query) fs of
             Some f \<Rightarrow> Some f
           | None \<Rightarrow> find (\<lambda>f. name f = query) fs))"

section \<open>Discovery: the registered confirmation\<close>




text \<open>
  The shutter driver (src/unnamed/part_002). Its two action templates carry an extra key \<^verbatim>\<open>type: "switch"\<close>
  and no unit; the extra key is not a field of \<^verbatim>\<open>Feature\<close> and is left out.
\<close>

definition temperatureTemplate :: "string \<Rightarrow> feature" where
  "temperatureTemplate u =
     \<lparr>ident = None, name = ''Temperature'', category = Sensor,
      verifyvalue = ''^-?(30(.00?)?|100(.00?)?|([0-9]|[1-9][0-9])(.d{2})?)$'',
      unit_of = Some u, icon = Some ''eva-thermometer'', types = [''temperature'']\<rparr>"







section \<open>Adapter state\<close>

text \<open>
  The module variables of a driver that the embedded handlers read and write: the
  device record (whose feature list \<^verbatim>\<open>handleMqttMessage\<close> extends in place), the list
  \<^verbatim>\<open>addFeatureProcess\<close>, the value cache \<^verbatim>\<open>featureValue\<close>; and what the handlers hand
  to the outside: the requests posted so far, and the closures given to \<^verbatim>\<open>setTimeout\<close>
  outside the liveness monitor, each with its delay and the requests it posts when run.
\<close>

record adapter =
  dev :: device
  addFeatureProcess :: "string list"
  featureValue :: "string \<rightharpoonup> jsval"
  posted :: "intent list"
  deferred :: "(nat \<times> intent list) list"

text \<open>\<^verbatim>\<open>featureValue.get(id)\<close>: undefined for a missing key.\<close>

definition cache_get :: "adapter \<Rightarrow> string \<Rightarrow> jsval" where
  "cache_get st i = (case featureValue st i of None \<Rightarrow> JUndefined | Some v \<Rightarrow> v)"

definition cache_set :: "string \<Rightarrow> jsval \<Rightarrow> adapter \<Rightarrow> adapter" where
  "cache_set i v st = st\<lparr>featureValue := (featureValue st)(i \<mapsto> v)\<rparr>"

definition post :: "intent \<Rightarrow> adapter \<Rightarrow> adapter" where
  "post i st = st\<lparr>posted := posted st @ [i]\<rparr>"

text \<open>\<^verbatim>\<open>getFeatureByTypeOrNameOrId(device, s)?._id\<close>, and its truth value.\<close>

definition feature_id_of :: "device \<Rightarrow> string \<Rightarrow> string option" where
  "feature_id_of d s =
     (case getFeatureByTypeOrNameOrId d s of None \<Rightarrow> None | Some f \<Rightarrow> ident f)"

definition id_truthy :: "string option \<Rightarrow> bool" where
  "id_truthy i = (case i of None \<Rightarrow> False | Some s \<Rightarrow> s \<noteq> [])"

section \<open>Inbound translation: sensor readings\<close>

text \<open>
  The temperature and humidity arms of \<^verbatim>\<open>handleMqttMessage\<close> are the same code with
  another type tag, feature template and threshold. When the feature is not known yet the
  template is appended to the feature list, the list is sent to the host and a restart is
  scheduled after 1500 ms.
\<close>

definition requestNewFeature :: "string \<Rightarrow> feature \<Rightarrow> adapter \<Rightarrow> adapter" where
  "requestNewFeature tag template st =
     (let d = (dev st)\<lparr>features := features (dev st) @ [template]\<rparr>
      in st\<lparr>dev := d,
            addFeatureProcess := addFeatureProcess st @ [tag],
            posted := posted st @ [EditDevice \<lparr>upd_conf = None, upd_features = Some (features d)\<rparr> True],
            deferred := deferred st @
              [(1500, [PublishMessage (''/device/'' @ device_id d @ ''/request'') (Text ''restart''),
                       RestartDeviceDriver])]\<rparr>)"

text \<open>
  \<^verbatim>\<open>oldValue !== undefined ? Math.abs(oldValue - reading) : Infinity\<close>; the subtraction
  rounds. The thresholds are decimal literals of the source.
\<close>

definition readingDelta :: "jsval \<Rightarrow> jsnum \<Rightarrow> jsnum" where
  "readingDelta oldValue reading =
     (if oldValue \<noteq> JUndefined then js_abs (js_sub (to_number oldValue) reading) else PInf)"

definition storeReading :: "string \<Rightarrow> real \<Rightarrow> jsnum \<Rightarrow> adapter \<Rightarrow> adapter" where
  "storeReading feature_id threshold reading st =
     (let oldValue = cache_get st feature_id;
          delta = readingDelta oldValue reading
      in post (SetData (Some (js_gt delta (js_literal threshold))) None
                 [(feature_id, JNum reading)])
           (cache_set feature_id (JNum reading) st))"

definition sensorReading :: "string \<Rightarrow> feature \<Rightarrow> real \<Rightarrow> jsval \<Rightarrow> adapter \<Rightarrow> adapter" where
  "sensorReading tag template threshold message st =
     (if truthy message \<and> parseFloat message \<noteq> NaN then
        (let reading = parseFloat message;
             feature_id = feature_id_of (dev st) tag;
             st1 = (if \<not> id_truthy feature_id \<and> tag \<notin> set (addFeatureProcess st)
                    then requestNewFeature tag template st else st)
         in case feature_id of
              None \<Rightarrow> st1
            | Some i \<Rightarrow> (if i \<noteq> [] then storeReading i threshold reading st1 else st1))
      else st)"

definition humidityTemplate :: feature where
  "humidityTemplate =
     \<lparr>ident = None, name = ''Humidity'', category = Sensor,
      verifyvalue = ''^(100(.0{1,2})?|[0-9]{1,2}(.[0-9]{1,2})?)$'',
      unit_of = Some ''%'', icon = Some ''sym_o_humidity_percentage'', types = [''humidity'']\<rparr>"

text \<open>
  \<^verbatim>\<open>handleMqttMessage\<close> of the two ESP drivers: the chain of \<^verbatim>\<open>topic.startsWith\<close> tests
  with its first two arms. The later arms (switch, info, status) need the liveness
  monitor and a JSON reader; they are the parameter \<open>later_arms\<close>. The two drivers have
  the same code and differ in three constants: the thresholds, 0.45 and 0.65 in
  src/esp-pwm-driver/index.ts, 0.1 and 0.25 in src/unnamed/part_001, and the characters of
  the temperature unit.
\<close>

definition handleMqttMessage ::
  "real \<Rightarrow> real \<Rightarrow> string \<Rightarrow> (string \<Rightarrow> jsval \<Rightarrow> adapter \<Rightarrow> adapter)
     \<Rightarrow> string \<Rightarrow> jsval \<Rightarrow> adapter \<Rightarrow> adapter" where
  "handleMqttMessage temperature_threshold humidity_threshold degrees later_arms topic message st =
     (if prefix (''/device/'' @ device_id (dev st) @ ''/temperature'') topic then
        sensorReading ''temperature'' (temperatureTemplate degrees) temperature_threshold message st
      else if prefix (''/device/'' @ device_id (dev st) @ ''/humidity'') topic then
        sensorReading ''humidity'' humidityTemplate humidity_threshold message st
      else later_arms topic message st)"

definition handleMqttMessage_esp_pwm ::
  "(string \<Rightarrow> jsval \<Rightarrow> adapter \<Rightarrow> adapter) \<Rightarrow> string \<Rightarrow> jsval \<Rightarrow> adapter \<Rightarrow> adapter" where
  "handleMqttMessage_esp_pwm = handleMqttMessage 0.45 0.65 [CHR 0xB0, CHR ''C'']"

definition handleMqttMessage_part_001 ::
  "(string \<Rightarrow> jsval \<Rightarrow> adapter \<Rightarrow> adapter) \<Rightarrow> string \<Rightarrow> jsval \<Rightarrow> adapter \<Rightarrow> adapter" where
  "handleMqttMessage_part_001 = handleMqttMessage 0.1 0.25 [CHR 0xC2, CHR 0xB0, CHR ''C'']"

text \<open>Feeding a list of payloads on one topic, one message after the other.\<close>

definition feed ::
  "(string \<Rightarrow> jsval \<Rightarrow> adapter \<Rightarrow> adapter) \<Rightarrow> string \<Rightarrow> jsval list \<Rightarrow> adapter \<Rightarrow> adapter" where
  "feed handler topic messages st = foldl (\<lambda>s m. handler topic m s) st messages"

text \<open>The feature-value updates among the posted requests, and their store flags.\<close>

fun is_value_update :: "string \<Rightarrow> intent \<Rightarrow> bool" where
  "is_value_update i (SetData s status fs) = (i \<in> fst ` set fs)"
| "is_value_update i _ = False"

fun store_flag :: "intent \<Rightarrow> bool option" where
  "store_flag (SetData s status fs) = s"
| "store_flag _ = None"

text \<open>
  The threshold policy as the specification words it: the delta of a reading is taken
  against the last reading that was flagged store-worthy, which stays in place until the
  next flagged reading.
\<close>

fun flags_against_last_stored :: "real \<Rightarrow> jsnum \<Rightarrow> jsnum list \<Rightarrow> bool list" where
  "flags_against_last_stored threshold stored [] = []"
| "flags_against_last_stored threshold stored (x # xs) =
     (if js_gt (js_abs (js_sub stored x)) (js_literal threshold)
      then True # flags_against_last_stored threshold x xs
      else False # flags_against_last_stored threshold stored xs)"

text \<open>
  A paired driver with one temperature feature: with an empty cache, and with the reading
  20.0 in the cache.
\<close>

definition thermo_device :: device where
  "thermo_device =
     \<lparr>device_id = ''d1'', conf = Some \<lparr>friendly_name = None, settings = Map.empty\<rparr>,
      features = [mk_feature ''t1'' ''Temperature'' Sensor [''temperature'']]\<rparr>"

definition thermo_start :: adapter where
  "thermo_start =
     \<lparr>dev = thermo_device, addFeatureProcess = [], featureValue = Map.empty, posted = [],
      deferred = []\<rparr>"

definition thermo_cached :: adapter where
  "thermo_cached = cache_set ''t1'' (JNum (Fin 20)) thermo_start"

text \<open>The concrete runs below stay on the sensor topics; the later arms are not entered.\<close>

definition no_later_arms :: "string \<Rightarrow> jsval \<Rightarrow> adapter \<Rightarrow> adapter" where
  "no_later_arms topic message st = st"

text \<open>
  The store flags of a run of readings when each delta is taken against the cache entry
  that the reading before it left behind.
\<close>

fun flags_against_previous :: "real \<Rightarrow> jsval \<Rightarrow> jsnum list \<Rightarrow> bool list" where
  "flags_against_previous threshold oldValue [] = []"
| "flags_against_previous threshold oldValue (x # xs) =
     js_gt (readingDelta oldValue x) (js_literal threshold)
       # flags_against_previous threshold (JNum x) xs"

section \<open>Outbound translation: state updates from the host\<close>

text \<open>
  A state update carries the object \<^verbatim>\<open>feature\<close>, read with \<^verbatim>\<open>Object.entries\<close>: a list
  of pairs of feature identifier and value, in the order of iteration; \<open>None\<close> stands for
  an update without the key \<^verbatim>\<open>feature\<close>. An exception that leaves a handler is a value
  of \<open>js_error\<close>; the result of an outbound handler is what it had posted and the
  exception that ended it, if any.
\<close>

datatype js_error = TypeError | Error string

type_synonym batch = "(string \<times> jsval) list"

type_synonym outcome = "intent list \<times> js_error option"

text \<open>
  The loop \<^verbatim>\<open>for (const [id, value] of Object.entries(...))\<close> of a handler that keeps
  no state: an entry that raises ends the loop, the requests posted before it stay posted.
\<close>

fun redisLoop :: "(string \<times> jsval \<Rightarrow> outcome) \<Rightarrow> batch \<Rightarrow> outcome" where
  "redisLoop body [] = ([], None)"
| "redisLoop body (e # es) =
     (case body e of
        (out, Some err) \<Rightarrow> (out, Some err)
      | (out, None) \<Rightarrow> (case redisLoop body es of (out', r) \<Rightarrow> (out @ out', r)))"

subsection \<open>PWM channels\<close>

text \<open>\<^verbatim>\<open>device?.conf?.key\<close> and \<^verbatim>\<open>a ?? b\<close>.\<close>

definition conf_get :: "device \<Rightarrow> string \<Rightarrow> jsval" where
  "conf_get d k =
     (case conf d of
        None \<Rightarrow> JUndefined
      | Some c \<Rightarrow> (case settings c k of None \<Rightarrow> JUndefined | Some v \<Rightarrow> v))"

definition nullish_or :: "jsval \<Rightarrow> jsval \<Rightarrow> jsval" where
  "nullish_or a b = (if not_nullish a then a else b)"

text \<open>
  \<^verbatim>\<open>getPWMFadeTime\<close>: the test \<^verbatim>\<open>propertyName in device.conf\<close> raises a TypeError when
  the device has no configuration.
\<close>

definition getPWMFadeTime :: "device \<Rightarrow> string \<Rightarrow> js_error + jsval" where
  "getPWMFadeTime d channelNumber =
     (let defaultFadeTime = nullish_or (conf_get d ''fadetime'') (JNum (Fin 500));
          propertyName = ''fade_channel_'' @ channelNumber
      in case conf d of
           None \<Rightarrow> Inl TypeError
         | Some c \<Rightarrow> (case settings c propertyName of
                        Some v \<Rightarrow> Inr v
                      | None \<Rightarrow> Inr defaultFadeTime))"

text \<open>\<^verbatim>\<open>typeof value === "boolean" || value === "true" || value === "false"\<close>.\<close>

fun is_boolean :: "jsval \<Rightarrow> bool" where
  "is_boolean (JBool b) = True"
| "is_boolean _ = False"

definition boolean_like :: "jsval \<Rightarrow> bool" where
  "boolean_like v = (is_boolean v \<or> v = JStr ''true'' \<or> v = JStr ''false'')"

text \<open>
  The body shared by the PWM arms of both drivers, from \<^verbatim>\<open>let pwm_value\<close> to the
  \<^verbatim>\<open>publishMessage\<close> request; \<open>channel\<close> is the channel number or pin as it appears in
  the topic. An empty result without exception is the \<^verbatim>\<open>continue\<close> of the source.
\<close>

definition pwmCommand :: "device \<Rightarrow> string \<Rightarrow> jsval \<Rightarrow> outcome" where
  "pwmCommand d channel v =
     (let topic = ''/device/'' @ device_id d @ ''/pwm/'' @ channel
      in if boolean_like v then
           ([PublishMessage topic
               (Json [(''value'', JNum (Fin (if v = JBool True \<or> v = JStr ''true'' then 255 else 0))),
                      (''fade'', JNum (Fin 0))])], None)
         else
           (let pwm_value = js_mul (Fin 2.5) (parseInt v)
            in if pwm_value = NaN then ([], None)
               else (case getPWMFadeTime d channel of
                       Inl err \<Rightarrow> ([], Some err)
                     | Inr fade_time \<Rightarrow>
                         ([PublishMessage topic
                             (Json [(''value'', JNum pwm_value), (''fade'', fade_time)])], None))))"

text \<open>
  \<^verbatim>\<open>extractNumberFromArray\<close>: the digits captured by \<^verbatim>\<open>/channel(\d+)/\<close> at the leftmost
  match in each string, read by \<^verbatim>\<open>parseInt\<close>.
\<close>

fun find_channel :: "string \<Rightarrow> string option" where
  "find_channel [] = None"
| "find_channel (c # cs) =
     (if prefix ''channel'' (c # cs) \<and> takeWhile (is_radix_digit 10) (drop 7 (c # cs)) \<noteq> []
      then Some (takeWhile (is_radix_digit 10) (drop 7 (c # cs)))
      else find_channel cs)"

definition extractNumberFromArray :: "string list \<Rightarrow> jsnum list" where
  "extractNumberFromArray array = map (parseInt_str 0) (List.map_filter find_channel array)"

text \<open>\<^verbatim>\<open>handleRedisMessage\<close> of src/esp-pwm-driver/index.ts.\<close>

definition handleRedisEntry_esp_pwm :: "device \<Rightarrow> string \<times> jsval \<Rightarrow> outcome" where
  "handleRedisEntry_esp_pwm d e =
     (case getFeatureByTypeOrNameOrId d (fst e) of
        None \<Rightarrow> ([], None)
      | Some f \<Rightarrow>
          (case extractNumberFromArray (types f) of
             [] \<Rightarrow> ([], None)
           | pwm_number # _ \<Rightarrow>
               (if truthy (JNum pwm_number)
                then pwmCommand d (number_to_string pwm_number) (snd e)
                else ([], None))))"

definition handleRedisMessage_esp_pwm :: "batch option \<Rightarrow> device \<Rightarrow> outcome" where
  "handleRedisMessage_esp_pwm feature_entries d =
     (case feature_entries of
        None \<Rightarrow> ([], None)
      | Some es \<Rightarrow> redisLoop (handleRedisEntry_esp_pwm d) es)"

subsection \<open>Pins, colours and brightness\<close>

text \<open>
  \<^verbatim>\<open>hexToRgb\<close>: one leading \<^verbatim>\<open>#\<close> is dropped, a string of three characters is
  doubled character by character (the pattern \<^verbatim>\<open>.\<close> leaves line ends alone), and any
  length but six raises. A value that is not a string has no \<^verbatim>\<open>replace\<close> method.
\<close>

definition is_line_end :: "char \<Rightarrow> bool" where
  "is_line_end c = (c = CHR 0x0A \<or> c = CHR 0x0D)"

definition hexToRgb :: "jsval \<Rightarrow> js_error + (string \<times> jsval) list" where
  "hexToRgb v =
     (case v of
        JStr s \<Rightarrow>
          (let h1 = (case s of c # t \<Rightarrow> (if c = CHR ''#'' then t else s) | [] \<Rightarrow> s);
               h2 = (if length h1 = 3
                     then concat (map (\<lambda>c. if is_line_end c then [c] else [c, c]) h1)
                     else h1)
           in if length h2 \<noteq> 6 then Inl (Error ''Invalid hex color string'')
              else Inr [(''r'', JNum (parseInt_str 16 (take 2 h2))),
                        (''g'', JNum (parseInt_str 16 (take 2 (drop 2 h2)))),
                        (''b'', JNum (parseInt_str 16 (take 2 (drop 4 h2))))])
      | _ \<Rightarrow> Inl TypeError)"

text \<open>
  \<^verbatim>\<open>types.find((type) => type.startsWith(p))?.replace(p, "")\<close>: what follows the prefix
  in the first type tag that has it.
\<close>

definition tag_suffix :: "string \<Rightarrow> string list \<Rightarrow> string option" where
  "tag_suffix p ts = map_option (drop (length p)) (find (prefix p) ts)"

definition is_neopixel_color :: "feature \<Rightarrow> bool" where
  "is_neopixel_color f =
     (''color'' \<in> set (types f)
      \<and> list_ex (\<lambda>t. prefix ''neopixel:'' t \<or> t = ''neopixel'') (types f))"

text \<open>\<^verbatim>\<open>handleRedisMessage\<close> of src/unnamed/part_001.\<close>

definition handleRedisEntry_part_001 :: "device \<Rightarrow> string \<times> jsval \<Rightarrow> outcome" where
  "handleRedisEntry_part_001 d e =
     (case getFeatureByTypeOrNameOrId d (fst e) of
        None \<Rightarrow> ([], None)
      | Some f \<Rightarrow>
          (if category f \<noteq> Action then ([], None)
           else if ''pwm'' \<in> set (types f) then
             (case tag_suffix ''pin:'' (types f) of
                None \<Rightarrow> ([], None)
              | Some pin \<Rightarrow> (if pin \<noteq> [] then pwmCommand d pin (snd e) else ([], None)))
           else if is_neopixel_color f then
             (case hexToRgb (snd e) of
                Inl err \<Rightarrow> ([], Some err)
              | Inr rgb \<Rightarrow>
                  (case tag_suffix ''neopixel:'' (types f) of
                     Some (c # cs) \<Rightarrow>
                       ([PublishMessage (''/device/'' @ device_id d @ ''/pixel/'' @ c # cs) (Json rgb)],
                        None)
                   | _ \<Rightarrow>
                       ([PublishMessage (''/device/'' @ device_id d @ ''/rgb'')
                           (Json (rgb @ [(''fade'', JNum (Fin 1000))]))], None)))
           else if ''neopixel_brightness'' \<in> set (types f) then
             ([PublishMessage (''/device/'' @ device_id d @ ''/config/neopixel'')
                 (Json [(''brightness'', snd e)])], None)
           else ([], None)))"

definition handleRedisMessage_part_001 :: "batch option \<Rightarrow> device \<Rightarrow> outcome" where
  "handleRedisMessage_part_001 feature_entries d =
     (case feature_entries of
        None \<Rightarrow> ([], None)
      | Some es \<Rightarrow> redisLoop (handleRedisEntry_part_001 d) es)"

text \<open>An entry is handled by the PWM arm of the driver with pins.\<close>

definition in_pwm_arm :: "device \<Rightarrow> string \<Rightarrow> bool" where
  "in_pwm_arm d i =
     (case getFeatureByTypeOrNameOrId d i of
        None \<Rightarrow> False
      | Some f \<Rightarrow> category f = Action \<and> ''pwm'' \<in> set (types f))"

text \<open>A paired device with two PWM pins and one colour strip.\<close>

definition light_device :: device where
  "light_device =
     \<lparr>device_id = ''d1'',
      conf = Some \<lparr>friendly_name = None, settings = [''searching'' \<mapsto> JBool False]\<rparr>,
      features = [mk_feature ''p1'' ''Pin 1'' Action [''pwm'', ''pin:1''],
                  mk_feature ''c1'' ''Strip'' Action [''color'', ''neopixel''],
                  mk_feature ''p2'' ''Pin 2'' Action [''pwm'', ''pin:2'']]\<rparr>"

text \<open>A paired device of src/esp-pwm-driver/index.ts with its three channels.\<close>

definition pwm_device :: device where
  "pwm_device =
     \<lparr>device_id = ''d1'',
      conf = Some \<lparr>friendly_name = None,
                   settings = [''searching'' \<mapsto> JBool False, ''fadetime'' \<mapsto> JNum (Fin 500)]\<rparr>,
      features = [mk_feature ''f1'' ''Channel 1'' Action [''channel1'', ''8bit'', ''pwm''],
                  mk_feature ''f2'' ''Channel 2'' Action [''channel2'', ''8bit'', ''pwm''],
                  mk_feature ''f3'' ''Channel 3'' Action [''channel3'', ''8bit'', ''pwm'']]\<rparr>"

subsection \<open>The Zigbee driver\<close>

text \<open>
  \<^verbatim>\<open>handleRedisMessage\<close> of src/unnamed/part_000 keeps the value cache. The body of its
  loop ends in one of two ways: it goes on with the next entry, or it returns from the
  handler.
\<close>

datatype flow = Continue adapter | Return adapter

definition zigbeeSetTopic :: "device \<Rightarrow> string" where
  "zigbeeSetTopic d =
     ''zigbee2mqtt/''
     @ (case conf d of
          None \<Rightarrow> ''undefined''
        | Some c \<Rightarrow> (case friendly_name c of None \<Rightarrow> ''undefined'' | Some n \<Rightarrow> n))
     @ ''/set''"

text \<open>\<^verbatim>\<open>a || b\<close>, \<^verbatim>\<open>value ? "ON" : "OFF"\<close>, and the loose \<^verbatim>\<open>v == b\<close> for a boolean \<open>b\<close>.\<close>

definition js_or :: "jsval \<Rightarrow> jsval \<Rightarrow> jsval" where
  "js_or a b = (if truthy a then a else b)"

definition on_off :: "jsval \<Rightarrow> jsval" where
  "on_off v = JStr (if truthy v then ''ON'' else ''OFF'')"

fun loose_eq_bool :: "jsval \<Rightarrow> bool \<Rightarrow> bool" where
  "loose_eq_bool (JBool c) b = (c = b)"
| "loose_eq_bool (JNum n) b = (n = Fin (if b then 1 else 0))"
| "loose_eq_bool (JStr s) b = (string_to_number s = Fin (if b then 1 else 0))"
| "loose_eq_bool _ b = False"

definition zigbeeCommand :: "adapter \<Rightarrow> feature \<Rightarrow> jsval \<Rightarrow> adapter" where
  "zigbeeCommand st f v =
     (let d = dev st;
          transition = js_or (conf_get d ''transition'') (JNum (Fin 0))
      in if conf_get d ''type'' = JStr ''E2204'' then
           (if ''switch'' \<in> set (types f)
            then post (PublishMessage (zigbeeSetTopic d) (Json [(''state'', on_off v)])) st
            else st)
         else if conf_get d ''type'' = JStr ''LED1835C6'' then
           (if ''state'' \<in> set (types f) then
              post (PublishMessage (zigbeeSetTopic d)
                      (Json [(''state'', on_off v),
                             (''transition'',
                              if truthy (conf_get d ''state_skip_transition'')
                              then JNum (Fin 0) else transition)])) st
            else if ''brightness'' \<in> set (types f) then
              (let state_feature_id = feature_id_of d ''state'';
                   st1 = post (PublishMessage (zigbeeSetTopic d)
                                 (Json [(''brightness'', v), (''transition'', transition)])) st
               in case state_feature_id of
                    None \<Rightarrow> st1
                  | Some i \<Rightarrow>
                      (if i \<noteq> [] \<and> \<not> loose_eq_bool (cache_get st1 i) (truthy v)
                       then post (SetData None None [(i, JBool (truthy v))]) st1
                       else st1))
            else if ''color_temp'' \<in> set (types f) then
              (let mapped_value =
                     js_add (js_mul (js_div (to_number v) (Fin 255)) (Fin (454 - 250))) (Fin 250)
               in post (PublishMessage (zigbeeSetTopic d)
                          (Json [(''color_temp'', JNum mapped_value),
                                 (''transition'', transition)])) st)
            else st)
         else st)"

definition handleRedisEntry_part_000 :: "adapter \<Rightarrow> string \<times> jsval \<Rightarrow> flow" where
  "handleRedisEntry_part_000 st e =
     (let oldValue = cache_get st (fst e)
      in if not_nullish oldValue \<and> strict_eq oldValue (snd e) then Return st
         else
           (let st1 = cache_set (fst e) (snd e) st
            in case getFeatureByTypeOrNameOrId (dev st1) (fst e) of
                 None \<Rightarrow> Continue st1
               | Some f \<Rightarrow>
                   (if category f \<noteq> Action \<or> \<not> truthy (conf_get (dev st1) ''type'')
                    then Continue st1
                    else Continue (zigbeeCommand st1 f (snd e)))))"

fun redisLoop_part_000 :: "adapter \<Rightarrow> batch \<Rightarrow> adapter" where
  "redisLoop_part_000 st [] = st"
| "redisLoop_part_000 st (e # es) =
     (case handleRedisEntry_part_000 st e of
        Return st' \<Rightarrow> st'
      | Continue st' \<Rightarrow> redisLoop_part_000 st' es)"

definition handleRedisMessage_part_000 :: "batch option \<Rightarrow> adapter \<Rightarrow> adapter" where
  "handleRedisMessage_part_000 feature_entries st =
     (case feature_entries of
        None \<Rightarrow> st
      | Some es \<Rightarrow> redisLoop_part_000 st es)"

text \<open>The handler has returned inside the given entries.\<close>

fun returns_within :: "adapter \<Rightarrow> batch \<Rightarrow> bool" where
  "returns_within st [] = False"
| "returns_within st (e # es) =
     (case handleRedisEntry_part_000 st e of
        Return st' \<Rightarrow> True
      | Continue st' \<Rightarrow> returns_within st' es)"

text \<open>A smart plug of model E2204 with two switch features; the first is cached as on.\<close>

definition plug_device :: device where
  "plug_device =
     \<lparr>device_id = ''z1'',
      conf = Some \<lparr>friendly_name = Some ''plug'',
                   settings = [''type'' \<mapsto> JStr ''E2204'', ''inited'' \<mapsto> JBool True]\<rparr>,
      features = [mk_feature ''a'' ''Switch A'' Action [''switch'', ''boolean''],
                  mk_feature ''b'' ''Switch B'' Action [''switch'', ''boolean'']]\<rparr>"

definition plug_start :: adapter where
  "plug_start =
     \<lparr>dev = plug_device, addFeatureProcess = [], featureValue = [''a'' \<mapsto> JBool True],
      posted = [], deferred = []\<rparr>"

section \<open>Liveness monitor\<close>

text \<open>
  The two module variables \<^verbatim>\<open>setOffineTimeout\<close> and \<^verbatim>\<open>requestStatusTimeout\<close> hold
  what \<^verbatim>\<open>setTimeout\<close> returned, or undefined (\<open>None\<close>). The timers of the runtime are
  the list \<open>scheduled\<close>: a timer is in the list from \<^verbatim>\<open>setTimeout\<close> until it fires or is
  cleared. A handle is truthy whether or not its timer is still scheduled. Time itself is
  not represented: a scheduled timer may fire at any later step.
\<close>

datatype timer_kind = RequestStatus | SetOffline

record liveness =
  setOffineTimeout :: "nat option"
  requestStatusTimeout :: "nat option"
  scheduled :: "(nat \<times> timer_kind) list"
  next_handle :: nat
  sent :: "intent list"

definition liveness_init :: liveness where
  "liveness_init =
     \<lparr>setOffineTimeout = None, requestStatusTimeout = None, scheduled = [], next_handle = 0,
      sent = []\<rparr>"

definition clearTimeout :: "nat option \<Rightarrow> liveness \<Rightarrow> liveness" where
  "clearTimeout h st =
     (case h of
        None \<Rightarrow> st
      | Some i \<Rightarrow> st\<lparr>scheduled := filter (\<lambda>t. fst t \<noteq> i) (scheduled st)\<rparr>)"

definition setTimeout :: "timer_kind \<Rightarrow> liveness \<Rightarrow> nat \<times> liveness" where
  "setTimeout k st =
     (next_handle st,
      st\<lparr>scheduled := scheduled st @ [(next_handle st, k)], next_handle := Suc (next_handle st)\<rparr>)"

definition offlineTimeoutStart :: "bool \<Rightarrow> liveness \<Rightarrow> liveness" where
  "offlineTimeoutStart clear st =
     (let st1 = (if clear
                 then (clearTimeout (requestStatusTimeout st) (clearTimeout (setOffineTimeout st) st))
                        \<lparr>setOffineTimeout := None, requestStatusTimeout := None\<rparr>
                 else st);
          st2 = (if requestStatusTimeout st1 = None
                 then (case setTimeout RequestStatus st1 of
                         (h, s) \<Rightarrow> s\<lparr>requestStatusTimeout := Some h\<rparr>)
                 else st1);
          st3 = (if setOffineTimeout st2 = None
                 then (case setTimeout SetOffline st2 of
                         (h, s) \<Rightarrow> s\<lparr>setOffineTimeout := Some h\<rparr>)
                 else st2)
      in st3)"

text \<open>
  The two closures given to \<^verbatim>\<open>setTimeout\<close>. The request-status closure ends with
  \<^verbatim>\<open>offlineTimeoutStart(false)\<close> in every driver. The offline closure ends with
  \<^verbatim>\<open>offlineTimeoutStart(false)\<close> in src/esp-pwm-driver/index.ts and in
  src/unnamed/part_002, and with \<^verbatim>\<open>offlineTimeoutStart()\<close> in src/unnamed/part_001:
  \<open>offline_clears\<close> is that argument.
\<close>

definition timerCallback :: "bool \<Rightarrow> string \<Rightarrow> timer_kind \<Rightarrow> liveness \<Rightarrow> liveness" where
  "timerCallback offline_clears dev_id k st =
     (case k of
        RequestStatus \<Rightarrow>
          offlineTimeoutStart False
            (st\<lparr>sent := sent st @ [PublishMessage (''/device/'' @ dev_id @ ''/request'') (Text ''status'')]\<rparr>)
      | SetOffline \<Rightarrow>
          offlineTimeoutStart offline_clears
            (st\<lparr>sent := sent st @ [SetData None (Some ''offline'') []]\<rparr>))"

text \<open>The runtime fires a scheduled timer: it leaves the list and its closure runs.\<close>

definition fire :: "bool \<Rightarrow> string \<Rightarrow> nat \<Rightarrow> liveness \<Rightarrow> liveness" where
  "fire offline_clears dev_id h st =
     (case map_of (scheduled st) h of
        None \<Rightarrow> st
      | Some k \<Rightarrow>
          timerCallback offline_clears dev_id k
            (st\<lparr>scheduled := filter (\<lambda>t. fst t \<noteq> h) (scheduled st)\<rparr>))"

text \<open>
  The message handler of src/esp-pwm-driver/index.ts once the device is paired, as far as
  the timers go: an \<^verbatim>\<open>mqtt\<close> message calls \<^verbatim>\<open>offlineTimeoutStart()\<close>, and every
  message ends with \<^verbatim>\<open>offlineTimeoutStart(false)\<close>. The handlers called in between do
  not touch the two variables.
\<close>

datatype message_type = Mqtt | Redis | OtherType

definition rearm_on_message :: "message_type \<Rightarrow> liveness \<Rightarrow> liveness" where
  "rearm_on_message t st =
     offlineTimeoutStart False (if t = Mqtt then offlineTimeoutStart True st else st)"

definition receive :: "message_type list \<Rightarrow> liveness \<Rightarrow> liveness" where
  "receive ts st = foldl (\<lambda>s t. rearm_on_message t s) st ts"

text \<open>The handles of the scheduled timers of one kind.\<close>

definition timers_of :: "timer_kind \<Rightarrow> liveness \<Rightarrow> nat list" where
  "timers_of k st = map fst (filter (\<lambda>t. snd t = k) (scheduled st))"

text \<open>
  Nothing armed yet; and both slots armed: each variable holds the handle of the one
  scheduled timer of its kind.
\<close>

definition unarmed :: "liveness \<Rightarrow> bool" where
  "unarmed st =
     (requestStatusTimeout st = None \<and> setOffineTimeout st = None \<and> scheduled st = [])"

definition armed :: "liveness \<Rightarrow> bool" where
  "armed st =
     (case (requestStatusTimeout st, setOffineTimeout st) of
        (Some h1, Some h2) \<Rightarrow>
          timers_of RequestStatus st = [h1] \<and> timers_of SetOffline st = [h2]
      | _ \<Rightarrow> False)"

section \<open>Re-authentication against the vendor endpoint\<close>

text \<open>
  \<^verbatim>\<open>getFritzBoxSID\<close> of src/unnamed/part_004. The module variables \<^verbatim>\<open>lastLoginTry\<close>,
  \<^verbatim>\<open>loginTryCount\<close> and \<^verbatim>\<open>lastLoginSuccsess\<close> are declared without a value, so they
  start undefined. The clock reading \<^verbatim>\<open>Date.now()\<close> is an argument. What the endpoint
  answers is an argument too, one case for each path through the function after the
  guards; \<open>fetches\<close> counts the requests sent to the endpoint.
\<close>

datatype login_exchange =
  FetchFails
| NoData
| SidNotZero
| NoChallenge
| SecondFetchFails
| InvalidSid
| LoggedIn string

datatype login_result = Returned bool | ProcessExit | Raised

record login_state =
  lastLoginTry :: jsval
  loginTryCount :: jsval
  lastLoginSuccsess :: jsval
  sid :: "string option"
  fetches :: nat

definition login_init :: login_state where
  "login_init =
     \<lparr>lastLoginTry = JUndefined, loginTryCount = JUndefined, lastLoginSuccsess = JUndefined,
      sid = None, fetches = 0\<rparr>"

definition loginExchange :: "int \<Rightarrow> login_exchange \<Rightarrow> login_state \<Rightarrow> login_result \<times> login_state" where
  "loginExchange currentTime net st =
     (case net of
        FetchFails \<Rightarrow> (Raised, st\<lparr>fetches := fetches st + 1\<rparr>)
      | NoData \<Rightarrow> (Returned False, st\<lparr>fetches := fetches st + 1\<rparr>)
      | SidNotZero \<Rightarrow> (Returned False, st\<lparr>fetches := fetches st + 1\<rparr>)
      | NoChallenge \<Rightarrow> (Returned False, st\<lparr>fetches := fetches st + 1\<rparr>)
      | SecondFetchFails \<Rightarrow> (Raised, st\<lparr>fetches := fetches st + 2\<rparr>)
      | InvalidSid \<Rightarrow>
          (Returned False, st\<lparr>fetches := fetches st + 2, sid := Some ''0000000000000000''\<rparr>)
      | LoggedIn s \<Rightarrow>
          (Returned True,
           st\<lparr>fetches := fetches st + 2, sid := Some s,
              lastLoginSuccsess := JNum (Fin (real_of_int currentTime))\<rparr>))"

definition getFritzBoxSID :: "int \<Rightarrow> login_exchange \<Rightarrow> login_state \<Rightarrow> login_result \<times> login_state" where
  "getFritzBoxSID currentTime net st =
     (let maxLoginInterval = 30 * 1000
      in if truthy (lastLoginTry st)
            \<and> js_lt (js_sub (Fin (real_of_int currentTime)) (to_number (lastLoginTry st)))
                 (Fin maxLoginInterval)
         then (Returned False, st)
         else if js_ge (to_number (loginTryCount st)) (Fin 20) then (ProcessExit, st)
         else loginExchange currentTime net
                (st\<lparr>lastLoginTry := JNum (Fin (real_of_int currentTime)),
                    loginTryCount := JNum (js_add (to_number (loginTryCount st)) (Fin 1))\<rparr>))"

text \<open>A sequence of calls, each with its clock reading and the answer of the endpoint.\<close>

fun login_calls :: "(int \<times> login_exchange) list \<Rightarrow> login_state \<Rightarrow> login_result list \<times> login_state" where
  "login_calls [] st = ([], st)"
| "login_calls (c # cs) st =
     (case getFritzBoxSID (fst c) (snd c) st of
        (r, st1) \<Rightarrow> (case login_calls cs st1 of (rs, st2) \<Rightarrow> (r # rs, st2)))"

text \<open>
  One call every 30 seconds, each answered with a challenge and then, for a wrong
  password, with the all-zero session identifier.
\<close>

definition retry_schedule :: "nat \<Rightarrow> (int \<times> login_exchange) list" where
  "retry_schedule n = map (\<lambda>k. (30000 * int k, InvalidSid)) [1..<Suc n]"

section \<open>Properties of the rounding to binary64\<close>

text \<open>An integer below \<open>2 ^ 53\<close> in magnitude is a binary64 value: rounding leaves it alone.\<close>

lemma digit_count_le: "n < 2 ^ k \<Longrightarrow> digit_count 2 n \<le> k"
proof (induction k arbitrary: n)
  case 0
  then show ?case by simp
next
  case (Suc k)
  show ?case
  proof (cases "n = 0")
    case True
    then show ?thesis by simp
  next
    case False
    have "n div 2 < 2 ^ k" using Suc.prems by simp
    then have "digit_count 2 (n div 2) \<le> k" by (rule Suc.IH)
    then show ?thesis using False by (subst digit_count.simps) simp
  qed
qed

lemma pow2_pos: "0 < pow2 e"
  by (simp add: pow2_def)

lemma round_half_even_int: "round_half_even (real_of_int n) = n"
  by (simp add: round_half_even_def)

lemma round_half_even_nonneg: "0 \<le> x \<Longrightarrow> 0 \<le> round_half_even x"
  by (auto simp: round_half_even_def Let_def)

lemma round64_int:
  assumes "\<bar>n\<bar> < 2 ^ 53"
  shows "round64 (real_of_int n) = Fin (real_of_int n)"
proof (cases "n = 0")
  case True
  then show ?thesis by (simp add: round64_def)
next
  case False
  define e where "e = max (floor_log 2 \<bar>real_of_int n\<bar>) (- 1022)"
  define k where "k = nat (52 - e)"
  have one: "1 \<le> \<bar>real_of_int n\<bar>" using False by linarith
  have "nat \<lfloor>\<bar>real_of_int n\<bar>\<rfloor> = nat \<bar>n\<bar>"
    by (metis floor_of_int of_int_abs)
  moreover have "nat \<bar>n\<bar> < 2 ^ 53" using assms by (simp add: nat_less_iff)
  ultimately have "digit_count 2 (nat \<lfloor>\<bar>real_of_int n\<bar>\<rfloor>) \<le> 53"
    by (simp add: digit_count_le del: digit_count.simps)
  then have "floor_log 2 \<bar>real_of_int n\<bar> \<le> 52"
    using one by (simp add: floor_log_def del: digit_count.simps)
  then have e: "e \<le> 52" by (simp add: e_def)
  then have ulp: "pow2 (e - 52) = 1 / 2 ^ k"
    by (cases "e = 52") (simp_all add: pow2_def k_def)
  have "real_of_int n / pow2 (e - 52) = real_of_int (n * 2 ^ k)"
    by (simp add: ulp)
  then have "round_half_even (real_of_int n / pow2 (e - 52)) = n * 2 ^ k"
    by (simp only: round_half_even_int)
  then have r: "real_of_int (round_half_even (real_of_int n / pow2 (e - 52))) * pow2 (e - 52)
                  = real_of_int n"
    by (simp add: ulp)
  have "\<bar>real_of_int n\<bar> < 2 ^ 53" using assms by (metis of_int_abs of_int_less_numeral_power_cancel_iff)
  also have "(2::real) ^ 53 \<le> 2 ^ 1024" by (rule power_increasing) simp_all
  finally have big: "\<not> pow2 1024 \<le> \<bar>real_of_int n\<bar>" by (simp add: pow2_def)
  show ?thesis
    using False big unfolding round64_def Let_def e_def [symmetric] r
    by simp
qed

lemma round64_numeral [simp]:
  "(numeral k :: int) < 2 ^ 53 \<Longrightarrow> round64 (numeral k) = Fin (numeral k)"
  "(numeral k :: int) < 2 ^ 53 \<Longrightarrow> round64 (- numeral k) = Fin (- numeral k)"
  "round64 1 = Fin 1" "round64 0 = Fin 0"
  using round64_int [of "numeral k"] round64_int [of "- numeral k"] round64_int [of 1]
  by (simp_all add: round64_def)

lemma round64_nonneg: "0 \<le> t \<Longrightarrow> \<not> js_gt (Fin 0) (round64 t)"
proof -
  assume t: "0 \<le> t"
  define p where "p = pow2 (max (floor_log 2 \<bar>t\<bar>) (- 1022) - 52)"
  have "0 \<le> t / p" using t pow2_pos [of "max (floor_log 2 \<bar>t\<bar>) (- 1022) - 52"]
    by (simp add: p_def)
  then have "0 \<le> round_half_even (t / p)" by (rule round_half_even_nonneg)
  then have "0 \<le> real_of_int (round_half_even (t / p)) * p"
    using pow2_pos [of "max (floor_log 2 \<bar>t\<bar>) (- 1022) - 52"] by (simp add: p_def)
  then show ?thesis
    using t unfolding round64_def Let_def p_def [symmetric] by (simp add: not_less)
qed

text \<open>
  Rounding at work: a value that is not representable, two ties (to the even significand,
  down and up), the overflow to the infinities, and the subnormal range, where half of the
  least positive value rounds to zero.
\<close>

lemma round64_examples:
  "round64 (1 / 3) = Fin (6004799503160661 / 18014398509481984)"
  "round64 9007199254740993 = Fin 9007199254740992"
  "round64 9007199254740995 = Fin 9007199254740996"
  "round64 (2 ^ 1024) = PInf"
  "round64 (- (2 ^ 1024)) = NInf"
  "round64 (1 / 2 ^ 1075) = Fin 0"
  "round64 (3 / 2 ^ 1075) = Fin (1 / 2 ^ 1073)"
  by (simp_all add: round64_def floor_log_def pow2_def round_half_even_def Let_def)

lemma shortest_first:
  assumes "closest x 1 (candidates x 1) = Some c"
  shows "shortest x 1 17 = (1, c)"
proof -
  have "(17::nat) = Suc 16" by simp
  then show ?thesis using assms by (simp only: shortest.simps option.case)
qed

text \<open>The channel numbers 1, 2 and 3 as they appear in a topic.\<close>

lemma positive_to_string_examples:
  "positive_to_string 1 = ''1''" "positive_to_string 2 = ''2''" "positive_to_string 3 = ''3''"
proof -
  have "closest 1 1 (candidates 1 1) = Some (1, 1)"
    by (simp add: candidates_def fits_def floor_log_def pow10_def)
  then have "shortest 1 1 17 = (1, 1, 1)" by (rule shortest_first)
  then show "positive_to_string 1 = ''1''" by (simp add: positive_to_string_def)
  have "closest 2 1 (candidates 2 1) = Some (2, 1)"
    by (simp add: candidates_def fits_def floor_log_def pow10_def)
  then have "shortest 2 1 17 = (1, 2, 1)" by (rule shortest_first)
  then show "positive_to_string 2 = ''2''" by (simp add: positive_to_string_def)
  have "closest 3 1 (candidates 3 1) = Some (3, 1)"
    by (simp add: candidates_def fits_def floor_log_def pow10_def)
  then have "shortest 3 1 17 = (1, 3, 1)" by (rule shortest_first)
  then show "positive_to_string 3 = ''3''" by (simp add: positive_to_string_def)
qed

lemma number_to_string_examples:
  "number_to_string (Fin 1) = ''1''" "number_to_string (Fin 2) = ''2''"
  "number_to_string (Fin 3) = ''3''"
  by (simp_all add: positive_to_string_examples)

section \<open>Properties of the feature directory\<close>

lemma getFeature_first_pass:
  "find (matchesTypeOrId q) (features d) = Some f \<Longrightarrow> getFeatureByTypeOrNameOrId d q = Some f"
  by (simp add: getFeatureByTypeOrNameOrId_def)

lemma getFeature_second_pass:
  "find (matchesTypeOrId q) (features d) = None \<Longrightarrow>
   getFeatureByTypeOrNameOrId d q = find (\<lambda>f. name f = q) (features d)"
  by (simp add: getFeatureByTypeOrNameOrId_def)

text \<open>
  C3 (counterexample). The first feature matches the query only by identifier, the
  second by type tag: the code returns the first, the priority order of the claim
  selects the second.
\<close>

theorem resolve_priority_counterexample:
  "getFeatureByTypeOrNameOrId
     \<lparr>device_id = ''d1'', conf = None,
      features = [mk_feature ''x'' ''A'' Sensor [], mk_feature ''y'' ''B'' Sensor [''x'']]\<rparr> ''x''
     = Some (mk_feature ''x'' ''A'' Sensor [])
   \<and> resolve_by_priority
       [mk_feature ''x'' ''A'' Sensor [], mk_feature ''y'' ''B'' Sensor [''x'']] ''x''
     = Some (mk_feature ''y'' ''B'' Sensor [''x''])"
  by (simp add: getFeatureByTypeOrNameOrId_def resolve_by_priority_def matchesTypeOrId_def
      mk_feature_def)

text \<open>
  C3 (amended). The resolve operation makes two passes over the feature list. The first
  pass returns the first feature, in list order, whose type tags contain the query or
  whose identifier equals the query; type tag and identifier have the same priority.
  Only when no feature matches in that way, the second pass returns the first feature
  whose display name equals the query. The result is not-found exactly when no feature
  matches by any of the three criteria.
\<close>

theorem resolve_two_passes:
  "(getFeatureByTypeOrNameOrId d q = Some f \<longleftrightarrow>
      (\<exists>i < length (features d). features d ! i = f \<and>
         ((matchesTypeOrId q f \<and> (\<forall>j < i. \<not> matchesTypeOrId q (features d ! j)))
          \<or> ((\<forall>g \<in> set (features d). \<not> matchesTypeOrId q g) \<and> name f = q
              \<and> (\<forall>j < i. name (features d ! j) \<noteq> q)))))
   \<and> (getFeatureByTypeOrNameOrId d q = None \<longleftrightarrow>
        (\<forall>g \<in> set (features d). \<not> matchesTypeOrId q g \<and> name g \<noteq> q))"
proof (cases "find (matchesTypeOrId q) (features d)")
  case None
  then have nomatch: "\<forall>g \<in> set (features d). \<not> matchesTypeOrId q g"
    by (simp add: find_None_iff)
  have second: "getFeatureByTypeOrNameOrId d q = find (\<lambda>f. name f = q) (features d)"
    using None by (rule getFeature_second_pass)
  have some: "getFeatureByTypeOrNameOrId d q = Some f \<longleftrightarrow>
      (\<exists>i < length (features d). features d ! i = f \<and> name f = q
          \<and> (\<forall>j < i. name (features d ! j) \<noteq> q))"
    unfolding second find_Some_iff by auto
  have none: "getFeatureByTypeOrNameOrId d q = None \<longleftrightarrow>
      (\<forall>g \<in> set (features d). name g \<noteq> q)"
    unfolding second find_None_iff by auto
  show ?thesis
  proof (intro conjI)
    show "getFeatureByTypeOrNameOrId d q = Some f \<longleftrightarrow>
      (\<exists>i < length (features d). features d ! i = f \<and>
         ((matchesTypeOrId q f \<and> (\<forall>j < i. \<not> matchesTypeOrId q (features d ! j)))
          \<or> ((\<forall>g \<in> set (features d). \<not> matchesTypeOrId q g) \<and> name f = q
              \<and> (\<forall>j < i. name (features d ! j) \<noteq> q))))"
      unfolding some using nomatch by (metis nth_mem)
    show "getFeatureByTypeOrNameOrId d q = None \<longleftrightarrow>
        (\<forall>g \<in> set (features d). \<not> matchesTypeOrId q g \<and> name g \<noteq> q)"
      unfolding none using nomatch by blast
  qed
next
  case (Some g)
  then have first: "getFeatureByTypeOrNameOrId d q = Some g"
    by (rule getFeature_first_pass)
  from Some obtain k where k: "k < length (features d)" "matchesTypeOrId q (features d ! k)"
      "g = features d ! k" "\<forall>j < k. \<not> matchesTypeOrId q (features d ! j)"
    unfolding find_Some_iff by blast
  have gin: "g \<in> set (features d)" using k by simp
  have gm: "matchesTypeOrId q g" using k by simp
  show ?thesis
  proof (intro conjI)
    show "getFeatureByTypeOrNameOrId d q = Some f \<longleftrightarrow>
      (\<exists>i < length (features d). features d ! i = f \<and>
         ((matchesTypeOrId q f \<and> (\<forall>j < i. \<not> matchesTypeOrId q (features d ! j)))
          \<or> ((\<forall>g \<in> set (features d). \<not> matchesTypeOrId q g) \<and> name f = q
              \<and> (\<forall>j < i. name (features d ! j) \<noteq> q))))"
    proof
      assume "getFeatureByTypeOrNameOrId d q = Some f"
      then have "f = g" using first by simp
      then show "\<exists>i < length (features d). features d ! i = f \<and>
         ((matchesTypeOrId q f \<and> (\<forall>j < i. \<not> matchesTypeOrId q (features d ! j)))
          \<or> ((\<forall>g \<in> set (features d). \<not> matchesTypeOrId q g) \<and> name f = q
              \<and> (\<forall>j < i. name (features d ! j) \<noteq> q)))"
        using k by blast
    next
      assume "\<exists>i < length (features d). features d ! i = f \<and>
         ((matchesTypeOrId q f \<and> (\<forall>j < i. \<not> matchesTypeOrId q (features d ! j)))
          \<or> ((\<forall>g \<in> set (features d). \<not> matchesTypeOrId q g) \<and> name f = q
              \<and> (\<forall>j < i. name (features d ! j) \<noteq> q)))"
      then obtain i where i: "i < length (features d)" "features d ! i = f"
          "matchesTypeOrId q f" "\<forall>j < i. \<not> matchesTypeOrId q (features d ! j)"
        using gin gm by blast
      have "i = k"
      proof (rule ccontr)
        assume "i \<noteq> k"
        then consider "i < k" | "k < i" by linarith
        then show False
        proof cases
          case 1
          then show False using k(4) i(2,3) by blast
        next
          case 2
          then show False using i(4) k(2) by blast
        qed
      qed
      then show "getFeatureByTypeOrNameOrId d q = Some f"
        using first k(3) i(2) by simp
    qed
    show "getFeatureByTypeOrNameOrId d q = None \<longleftrightarrow>
        (\<forall>g \<in> set (features d). \<not> matchesTypeOrId q g \<and> name g \<noteq> q)"
      using first gin gm by auto
  qed
qed

theorem resolve_two_passes_witness:
  "getFeatureByTypeOrNameOrId
     \<lparr>device_id = ''d1'', conf = None,
      features = [mk_feature ''a'' ''temperature'' Sensor [],
                  mk_feature ''b'' ''B'' Sensor [''temperature'']]\<rparr> ''temperature''
     = Some (mk_feature ''b'' ''B'' Sensor [''temperature''])
   \<and> getFeatureByTypeOrNameOrId
     \<lparr>device_id = ''d1'', conf = None,
      features = [mk_feature ''a'' ''temperature'' Sensor [],
                  mk_feature ''b'' ''B'' Sensor [''temperature'']]\<rparr> ''humidity'' = None"
proof -
  let ?a = "mk_feature ''a'' ''temperature'' Sensor []"
  let ?b = "mk_feature ''b'' ''B'' Sensor [''temperature'']"
  let ?d = "\<lparr>device_id = ''d1'', conf = None, features = [?a, ?b]\<rparr>"
  have m: "\<not> matchesTypeOrId ''temperature'' ?a" "matchesTypeOrId ''temperature'' ?b"
      "\<not> matchesTypeOrId ''humidity'' ?a" "\<not> matchesTypeOrId ''humidity'' ?b"
      "name ?a \<noteq> ''humidity''" "name ?b \<noteq> ''humidity''"
    by (simp_all add: matchesTypeOrId_def mk_feature_def)
  have "\<exists>i < length (features ?d). features ?d ! i = ?b \<and>
         ((matchesTypeOrId ''temperature'' ?b
            \<and> (\<forall>j < i. \<not> matchesTypeOrId ''temperature'' (features ?d ! j)))
          \<or> ((\<forall>g \<in> set (features ?d). \<not> matchesTypeOrId ''temperature'' g)
              \<and> name ?b = ''temperature''
              \<and> (\<forall>j < i. name (features ?d ! j) \<noteq> ''temperature'')))"
    using m by (intro exI[of _ 1]) simp
  then have one: "getFeatureByTypeOrNameOrId ?d ''temperature'' = Some ?b"
    using resolve_two_passes [of ?d "''temperature''" ?b] by blast
  have "\<forall>g \<in> set (features ?d). \<not> matchesTypeOrId ''humidity'' g \<and> name g \<noteq> ''humidity''"
    using m by simp
  then have two: "getFeatureByTypeOrNameOrId ?d ''humidity'' = None"
    using resolve_two_passes [of ?d "''humidity''" ?b] by blast
  show ?thesis using one two by simp
qed

section \<open>Properties of the registered confirmation\<close>





section \<open>Properties of the Zigbee state-update handler\<close>

lemma redisLoop_part_000_append:
  "redisLoop_part_000 st (xs @ ys) =
     (if returns_within st xs then redisLoop_part_000 st xs
      else redisLoop_part_000 (redisLoop_part_000 st xs) ys)"
proof (induction xs arbitrary: st)
  case Nil
  show ?case by simp
next
  case (Cons e es)
  show ?case
  proof (cases "handleRedisEntry_part_000 st e")
    case (Continue st')
    then show ?thesis using Cons.IH [of st'] by simp
  next
    case (Return st')
    then show ?thesis by simp
  qed
qed

lemma handleRedisEntry_part_000_unchanged:
  assumes "not_nullish v" and "strict_eq (cache_get st i) v"
  shows "handleRedisEntry_part_000 st (i, v) = Return st"
proof -
  from assms(2) have "cache_get st i = v" by (simp add: strict_eq_def)
  with assms show ?thesis by (simp add: handleRedisEntry_part_000_def)
qed

text \<open>
  C10 (counterexample). The cache of the plug holds null for its first switch, left there
  by an earlier update, and a batch sets that switch to null again and the second switch
  to on. The value is strictly equal to the cached one, yet the handler does not return:
  the test \<^verbatim>\<open>oldValue != undefined\<close> is false for null, so the entry is translated
  again and the entry after it is translated too.
\<close>

theorem zigbee_cached_null_counterexample:
  "strict_eq (cache_get (handleRedisMessage_part_000 (Some [(''a'', JNull)]) plug_start) ''a'') JNull
   \<and> posted (handleRedisMessage_part_000 (Some [(''a'', JNull), (''b'', JBool True)])
               (handleRedisMessage_part_000 (Some [(''a'', JNull)]) plug_start))
       = [PublishMessage ''zigbee2mqtt/plug/set'' (Json [(''state'', JStr ''OFF'')]),
          PublishMessage ''zigbee2mqtt/plug/set'' (Json [(''state'', JStr ''OFF'')]),
          PublishMessage ''zigbee2mqtt/plug/set'' (Json [(''state'', JStr ''ON'')])]"
  by (simp add: handleRedisMessage_part_000_def handleRedisEntry_part_000_def cache_get_def
      cache_set_def plug_start_def plug_device_def not_nullish_def strict_eq_def
      getFeatureByTypeOrNameOrId_def matchesTypeOrId_def mk_feature_def conf_get_def
      zigbeeCommand_def zigbeeSetTopic_def on_off_def post_def)

text \<open>
  C10 (amended). In the state-update handler of the Zigbee driver, an entry whose value
  is strictly equal to the value cached for its feature identifier, and is neither
  undefined nor null, makes the handler return: the handler ends in the state it had
  reached before that entry, so the entries after it are neither cached nor translated,
  whatever they are.
\<close>

theorem zigbee_unchanged_entry_ends_batch:
  assumes "not_nullish v"
    and "strict_eq (cache_get (redisLoop_part_000 st pre) i) v"
  shows "handleRedisMessage_part_000 (Some (pre @ (i, v) # rest)) st
           = handleRedisMessage_part_000 (Some pre) st"
proof (cases "returns_within st pre")
  case True
  then show ?thesis
    by (simp add: handleRedisMessage_part_000_def redisLoop_part_000_append)
next
  case False
  have "handleRedisEntry_part_000 (redisLoop_part_000 st pre) (i, v)
          = Return (redisLoop_part_000 st pre)"
    using assms by (rule handleRedisEntry_part_000_unchanged)
  with False show ?thesis
    by (simp add: handleRedisMessage_part_000_def redisLoop_part_000_append)
qed

lemma plug_entry_b:
  "handleRedisMessage_part_000 (Some [(''b'', JBool True)]) plug_start
     = post (PublishMessage ''zigbee2mqtt/plug/set'' (Json [(''state'', JStr ''ON'')]))
         (cache_set ''b'' (JBool True) plug_start)"
  by (simp add: handleRedisMessage_part_000_def handleRedisEntry_part_000_def cache_get_def
      cache_set_def plug_start_def plug_device_def not_nullish_def strict_eq_def
      getFeatureByTypeOrNameOrId_def matchesTypeOrId_def mk_feature_def conf_get_def
      zigbeeCommand_def zigbeeSetTopic_def on_off_def post_def)

theorem zigbee_unchanged_entry_ends_batch_witness:
  "not_nullish (JBool True)
   \<and> strict_eq (cache_get (redisLoop_part_000 plug_start []) ''a'') (JBool True)
   \<and> handleRedisMessage_part_000 (Some [(''a'', JBool True), (''b'', JBool True)]) plug_start
       = plug_start
   \<and> posted (handleRedisMessage_part_000 (Some [(''b'', JBool True)]) plug_start)
       = [PublishMessage ''zigbee2mqtt/plug/set'' (Json [(''state'', JStr ''ON'')])]"
proof -
  have n: "not_nullish (JBool True)" by (simp add: not_nullish_def)
  have s: "strict_eq (cache_get (redisLoop_part_000 plug_start []) ''a'') (JBool True)"
    by (simp add: strict_eq_def cache_get_def plug_start_def)
  have "handleRedisMessage_part_000 (Some ([] @ (''a'', JBool True) # [(''b'', JBool True)])) plug_start
          = handleRedisMessage_part_000 (Some []) plug_start"
    using n s by (rule zigbee_unchanged_entry_ends_batch)
  then have e: "handleRedisMessage_part_000 (Some [(''a'', JBool True), (''b'', JBool True)]) plug_start
                  = plug_start"
    by (simp add: handleRedisMessage_part_000_def)
  have p: "posted (handleRedisMessage_part_000 (Some [(''b'', JBool True)]) plug_start)
             = [PublishMessage ''zigbee2mqtt/plug/set'' (Json [(''state'', JStr ''ON'')])]"
    unfolding plug_entry_b by (simp add: post_def cache_set_def plug_start_def)
  show ?thesis using n s e p by simp
qed

section \<open>Properties of the inbound sensor path\<close>

lemma sensorReading_known:
  assumes "truthy m" and "parseFloat m \<noteq> NaN"
    and "feature_id_of (dev st) tag = Some i" and "i \<noteq> []"
  shows "sensorReading tag template threshold m st = storeReading i threshold (parseFloat m) st"
  using assms by (simp add: sensorReading_def id_truthy_def)

lemma posted_storeReading:
  "posted (storeReading i threshold r st)
     = posted st @ [SetData (Some (js_gt (readingDelta (cache_get st i) r) (js_literal threshold)))
                      None [(i, JNum r)]]"
  by (simp add: storeReading_def post_def cache_set_def)

lemma dev_storeReading: "dev (storeReading i threshold r st) = dev st"
  by (simp add: storeReading_def post_def cache_set_def)

lemma cache_storeReading: "cache_get (storeReading i threshold r st) i = JNum r"
  by (simp add: storeReading_def post_def cache_set_def cache_get_def)

lemma readingDelta_same:
  assumes "r \<noteq> NaN" and "0 \<le> threshold"
  shows "\<not> js_gt (readingDelta (JNum r) r) (js_literal threshold)"
proof (cases r)
  case (Fin x)
  have "readingDelta (JNum r) r = Fin 0"
    unfolding Fin by (simp add: readingDelta_def js_sub_def)
  then show ?thesis
    using round64_nonneg [OF assms(2)] by (simp add: js_literal_def)
qed (use assms(1) in \<open>simp_all add: readingDelta_def js_sub_def\<close>)

lemma handleMqttMessage_temperature:
  assumes "truthy m" and "parseFloat m \<noteq> NaN"
    and "prefix (''/device/'' @ device_id (dev st) @ ''/temperature'') topic"
    and "feature_id_of (dev st) ''temperature'' = Some i" and "i \<noteq> []"
  shows "handleMqttMessage tt ht degrees later_arms topic m st
           = storeReading i tt (parseFloat m) st"
proof -
  have "handleMqttMessage tt ht degrees later_arms topic m st
          = sensorReading ''temperature'' (temperatureTemplate degrees) tt m st"
    unfolding handleMqttMessage_def using assms(3) by (rule if_P)
  also have "\<dots> = storeReading i tt (parseFloat m) st"
    using assms(1,2,4,5) by (rule sensorReading_known)
  finally show ?thesis .
qed

lemma handleMqttMessage_humidity:
  assumes "truthy m" and "parseFloat m \<noteq> NaN"
    and "\<not> prefix (''/device/'' @ device_id (dev st) @ ''/temperature'') topic"
    and "prefix (''/device/'' @ device_id (dev st) @ ''/humidity'') topic"
    and "feature_id_of (dev st) ''humidity'' = Some i" and "i \<noteq> []"
  shows "handleMqttMessage tt ht degrees later_arms topic m st
           = storeReading i ht (parseFloat m) st"
proof -
  have "handleMqttMessage tt ht degrees later_arms topic m st
          = sensorReading ''humidity'' humidityTemplate ht m st"
    unfolding handleMqttMessage_def if_not_P [OF assms(3)] using assms(4) by (rule if_P)
  also have "\<dots> = storeReading i ht (parseFloat m) st"
    using assms(1,2,5,6) by (rule sensorReading_known)
  finally show ?thesis .
qed

lemma handleMqttMessage_arm:
  assumes "truthy m" and "parseFloat m \<noteq> NaN"
    and "(prefix (''/device/'' @ device_id (dev st) @ ''/temperature'') topic
            \<and> tag = ''temperature'' \<and> threshold = tt)
         \<or> (\<not> prefix (''/device/'' @ device_id (dev st) @ ''/temperature'') topic
            \<and> prefix (''/device/'' @ device_id (dev st) @ ''/humidity'') topic
            \<and> tag = ''humidity'' \<and> threshold = ht)"
    and "feature_id_of (dev st) tag = Some i" and "i \<noteq> []"
  shows "handleMqttMessage tt ht degrees later_arms topic m st
           = storeReading i threshold (parseFloat m) st"
  using assms(3)
proof (elim disjE conjE)
  assume p: "prefix (''/device/'' @ device_id (dev st) @ ''/temperature'') topic"
    and tg: "tag = ''temperature''" and th: "threshold = tt"
  show ?thesis
    unfolding th using assms(1,2) p assms(4) [unfolded tg] assms(5)
    by (rule handleMqttMessage_temperature)
next
  assume np: "\<not> prefix (''/device/'' @ device_id (dev st) @ ''/temperature'') topic"
    and p: "prefix (''/device/'' @ device_id (dev st) @ ''/humidity'') topic"
    and tg: "tag = ''humidity''" and th: "threshold = ht"
  show ?thesis
    unfolding th using assms(1,2) np p assms(4) [unfolded tg] assms(5)
    by (rule handleMqttMessage_humidity)
qed

lemma thermo_feature_id: "feature_id_of (dev thermo_start) ''temperature'' = Some ''t1''"
  by (simp add: feature_id_of_def getFeatureByTypeOrNameOrId_def matchesTypeOrId_def
      thermo_start_def thermo_device_def mk_feature_def)

lemma thermo_topic:
  "prefix (''/device/'' @ device_id (dev thermo_start) @ ''/temperature'') ''/device/d1/temperature''"
  by (simp add: thermo_start_def thermo_device_def)

lemma parseFloat_examples:
  "parseFloat (JStr ''20.0'') = Fin 20"
  "parseFloat (JStr ''20.05'') = Fin (5643573283048653 / 281474976710656)"
  "parseFloat (JStr ''20.9'') = Fin (2941413506626355 / 140737488355328)"
  "parseFloat (JStr ''20.08'') = Fin (1413004383087493 / 70368744177664)"
  "parseFloat (JStr ''20.16'') = Fin (5674535530486825 / 281474976710656)"
  "parseFloat (JStr ''20.5'') = Fin 20.5"
  by (simp_all add: parseFloat_def parseFloat_str_def read_sign_def is_ws_def
      read_unsigned_decimal_def is_radix_digit_def digit_val_def digits_value_def
      read_exponent_def pow10_def)
     (simp_all add: round64_def floor_log_def pow2_def round_half_even_def Let_def)

text \<open>The thresholds 0.45 and 0.1 as binary64 values.\<close>

lemma js_literal_examples:
  "js_literal (9 / 20) = Fin (8106479329266893 / 18014398509481984)"
  "js_literal (1 / 10) = Fin (3602879701896397 / 36028797018963968)"
  by (simp_all add: js_literal_def round64_def floor_log_def pow2_def round_half_even_def Let_def)

text \<open>
  C1 (counterexample). The same temperature payload is fed twice in a row to the driver
  of src/esp-pwm-driver/index.ts, which knows the temperature feature: two feature-value
  updates are posted, not one.
\<close>

theorem change_suppression_counterexample:
  "filter (is_value_update ''t1'')
     (posted (feed (handleMqttMessage_esp_pwm no_later_arms) ''/device/d1/temperature''
                [JStr ''20.5'', JStr ''20.5''] thermo_start))
   = [SetData (Some True) None [(''t1'', JNum (Fin 20.5))],
      SetData (Some False) None [(''t1'', JNum (Fin 20.5))]]"
proof -
  let ?h = "handleMqttMessage_esp_pwm no_later_arms ''/device/d1/temperature'' (JStr ''20.5'')"
  have arm: "\<And>st. dev st = dev thermo_start \<Longrightarrow> ?h st = storeReading ''t1'' 0.45 (Fin 20.5) st"
  proof -
    fix st :: adapter
    assume d: "dev st = dev thermo_start"
    have p: "prefix (''/device/'' @ device_id (dev st) @ ''/temperature'') ''/device/d1/temperature''"
      unfolding d by (rule thermo_topic)
    have f: "feature_id_of (dev st) ''temperature'' = Some ''t1''"
      unfolding d by (rule thermo_feature_id)
    have t: "truthy (JStr ''20.5'')" by simp
    have n: "parseFloat (JStr ''20.5'') \<noteq> NaN" by (simp only: parseFloat_examples) simp
    have "?h st = storeReading ''t1'' 0.45 (parseFloat (JStr ''20.5'')) st"
      unfolding handleMqttMessage_esp_pwm_def
      using t n p f by (rule handleMqttMessage_temperature) simp
    then show "?h st = storeReading ''t1'' 0.45 (Fin 20.5) st"
      by (simp only: parseFloat_examples)
  qed
  have one: "?h thermo_start = storeReading ''t1'' 0.45 (Fin 20.5) thermo_start"
    by (rule arm) simp
  have two: "?h (?h thermo_start)
               = storeReading ''t1'' 0.45 (Fin 20.5) (storeReading ''t1'' 0.45 (Fin 20.5) thermo_start)"
    unfolding one by (rule arm) (simp add: dev_storeReading)
  have "feed (handleMqttMessage_esp_pwm no_later_arms) ''/device/d1/temperature''
          [JStr ''20.5'', JStr ''20.5''] thermo_start = ?h (?h thermo_start)"
    by (simp add: feed_def)
  then show ?thesis
    unfolding two
    by (simp add: posted_storeReading cache_storeReading readingDelta_same)
       (simp add: thermo_start_def cache_get_def readingDelta_def js_literal_examples)
qed

text \<open>
  C1 (amended). On the inbound path of the ESP drivers, every temperature or humidity
  payload that is truthy and reads as a number, for a feature that resolves to a
  non-empty identifier, posts exactly one feature-value update for that feature, whether
  or not the value equals the cached one. The cache entry only decides the store flag
  (true when the entry is undefined or the absolute difference exceeds the threshold of
  the arm, both in binary64 arithmetic) and is then overwritten. Feeding the same value
  twice in a row therefore posts two updates, the second one flagged as not store-worthy.
  This holds for every choice of the two thresholds that is not negative, so for both
  drivers.
\<close>

theorem inbound_reading_always_posted:
  assumes "truthy m" and "parseFloat m \<noteq> NaN"
    and "(prefix (''/device/'' @ device_id (dev st) @ ''/temperature'') topic
            \<and> tag = ''temperature'' \<and> threshold = tt)
         \<or> (\<not> prefix (''/device/'' @ device_id (dev st) @ ''/temperature'') topic
            \<and> prefix (''/device/'' @ device_id (dev st) @ ''/humidity'') topic
            \<and> tag = ''humidity'' \<and> threshold = ht)"
    and "feature_id_of (dev st) tag = Some i" and "i \<noteq> []"
    and "0 \<le> tt" and "0 \<le> ht"
    and "h = handleMqttMessage tt ht degrees later_arms"
  shows "posted (h topic m st)
           = posted st @ [SetData (Some (js_gt (readingDelta (cache_get st i) (parseFloat m))
                                           (js_literal threshold))) None
                            [(i, JNum (parseFloat m))]]
         \<and> cache_get (h topic m st) i = JNum (parseFloat m)
         \<and> posted (h topic m (h topic m st))
           = posted (h topic m st) @ [SetData (Some False) None [(i, JNum (parseFloat m))]]"
proof -
  let ?st1 = "storeReading i threshold (parseFloat m) st"
  have one: "h topic m st = ?st1"
    unfolding assms(8) using assms(1-5) by (rule handleMqttMessage_arm)
  have d: "dev ?st1 = dev st" by (rule dev_storeReading)
  have two: "h topic m ?st1 = storeReading i threshold (parseFloat m) ?st1"
    unfolding assms(8)
    using assms(1,2) assms(3,4) [folded d] assms(5) by (rule handleMqttMessage_arm)
  have "threshold = tt \<or> threshold = ht" using assms(3) by blast
  then have thr: "0 \<le> threshold" using assms(6,7) by auto
  have flag: "\<not> js_gt (readingDelta (JNum (parseFloat m)) (parseFloat m)) (js_literal threshold)"
    using assms(2) thr by (rule readingDelta_same)
  show ?thesis
    unfolding one two
    by (simp add: posted_storeReading cache_storeReading flag)
qed

theorem inbound_reading_always_posted_witness:
  "truthy (JStr ''20.5'') \<and> parseFloat (JStr ''20.5'') \<noteq> NaN
   \<and> prefix (''/device/'' @ device_id (dev thermo_start) @ ''/temperature'') ''/device/d1/temperature''
   \<and> feature_id_of (dev thermo_start) ''temperature'' = Some ''t1''
   \<and> posted (handleMqttMessage_esp_pwm no_later_arms ''/device/d1/temperature'' (JStr ''20.5'')
               thermo_start)
       = [SetData (Some True) None [(''t1'', JNum (Fin 20.5))]]
   \<and> posted (handleMqttMessage_esp_pwm no_later_arms ''/device/d1/temperature'' (JStr ''20.5'')
               (handleMqttMessage_esp_pwm no_later_arms ''/device/d1/temperature'' (JStr ''20.5'')
                  thermo_start))
       = [SetData (Some True) None [(''t1'', JNum (Fin 20.5))],
          SetData (Some False) None [(''t1'', JNum (Fin 20.5))]]"
proof -
  have t: "truthy (JStr ''20.5'')" by simp
  have p: "parseFloat (JStr ''20.5'') \<noteq> NaN" by (simp only: parseFloat_examples) simp
  have a: "(prefix (''/device/'' @ device_id (dev thermo_start) @ ''/temperature'')
              ''/device/d1/temperature'' \<and> ''temperature'' = ''temperature'' \<and> (0.45::real) = 0.45)
           \<or> (\<not> prefix (''/device/'' @ device_id (dev thermo_start) @ ''/temperature'')
                  ''/device/d1/temperature''
              \<and> prefix (''/device/'' @ device_id (dev thermo_start) @ ''/humidity'')
                  ''/device/d1/temperature''
              \<and> ''temperature'' = ''humidity'' \<and> (0.45::real) = 0.65)"
    using thermo_topic by simp
  have n: "''t1'' \<noteq> []" by simp
  have z: "(0::real) \<le> 0.45" "(0::real) \<le> 0.65" by simp_all
  have h: "handleMqttMessage_esp_pwm no_later_arms
             = handleMqttMessage 0.45 0.65 [CHR 0xB0, CHR ''C''] no_later_arms"
    by (simp only: handleMqttMessage_esp_pwm_def)
  have c: "cache_get thermo_start ''t1'' = JUndefined"
    by (simp add: cache_get_def thermo_start_def)
  have e: "posted thermo_start = []" by (simp add: thermo_start_def)
  note w = inbound_reading_always_posted [OF t p a thermo_feature_id n z h]
  show ?thesis
    using t p thermo_topic thermo_feature_id w
    by (simp add: c e readingDelta_def parseFloat_examples js_literal_examples)
qed

section \<open>Properties of the store flag\<close>

lemma feed_Cons: "feed handler topic (m # ms) st = feed handler topic ms (handler topic m st)"
  by (simp add: feed_def)

lemma feed_Nil: "feed handler topic [] st = st"
  by (simp add: feed_def)

lemma store_flags_of_feed:
  assumes "prefix (''/device/'' @ device_id (dev st) @ ''/temperature'') topic"
    and "feature_id_of (dev st) ''temperature'' = Some i" and "i \<noteq> []"
    and "list_all (\<lambda>m. truthy m \<and> parseFloat m \<noteq> NaN) ms"
  shows "map store_flag (posted (feed (handleMqttMessage_part_001 later_arms) topic ms st))
           = map store_flag (posted st)
               @ map Some (flags_against_previous 0.1 (cache_get st i) (map parseFloat ms))"
  using assms
proof (induction ms arbitrary: st)
  case Nil
  then show ?case by (simp add: feed_Nil)
next
  case (Cons m ms)
  let ?st1 = "storeReading i 0.1 (parseFloat m) st"
  have tm: "truthy m" and pm: "parseFloat m \<noteq> NaN" using Cons.prems(4) by simp_all
  have one: "handleMqttMessage_part_001 later_arms topic m st = ?st1"
    unfolding handleMqttMessage_part_001_def
    using tm pm Cons.prems(1,2,3) by (rule handleMqttMessage_temperature)
  have d: "dev ?st1 = dev st" by (rule dev_storeReading)
  have ih: "map store_flag (posted (feed (handleMqttMessage_part_001 later_arms) topic ms ?st1))
              = map store_flag (posted ?st1)
                  @ map Some (flags_against_previous 0.1 (cache_get ?st1 i) (map parseFloat ms))"
  proof (rule Cons.IH)
    show "prefix (''/device/'' @ device_id (dev ?st1) @ ''/temperature'') topic"
      unfolding d by (rule Cons.prems(1))
    show "feature_id_of (dev ?st1) ''temperature'' = Some i"
      unfolding d by (rule Cons.prems(2))
    show "i \<noteq> []" by (rule Cons.prems(3))
    show "list_all (\<lambda>m. truthy m \<and> parseFloat m \<noteq> NaN) ms" using Cons.prems(4) by simp
  qed
  show ?case
    unfolding feed_Cons one ih
    by (simp add: posted_storeReading cache_storeReading)
qed

lemma thermo_cached_facts:
  "prefix (''/device/'' @ device_id (dev thermo_cached) @ ''/temperature'') ''/device/d1/temperature''"
  "feature_id_of (dev thermo_cached) ''temperature'' = Some ''t1''"
  "cache_get thermo_cached ''t1'' = JNum (Fin 20)"
  "posted thermo_cached = []"
proof -
  have d: "dev thermo_cached = dev thermo_start" by (simp add: thermo_cached_def cache_set_def)
  show "prefix (''/device/'' @ device_id (dev thermo_cached) @ ''/temperature'')
          ''/device/d1/temperature''"
    unfolding d by (rule thermo_topic)
  show "feature_id_of (dev thermo_cached) ''temperature'' = Some ''t1''"
    unfolding d by (rule thermo_feature_id)
  show "cache_get thermo_cached ''t1'' = JNum (Fin 20)"
    by (simp add: thermo_cached_def cache_get_def cache_set_def)
  show "posted thermo_cached = []"
    by (simp add: thermo_cached_def cache_set_def thermo_start_def)
qed

text \<open>
  The deltas of the runs below in binary64: 20.05 and 20.08 are less than 0.1 away from
  20.0, 20.16 is less than 0.1 away from 20.08 and more than 0.1 away from 20.0, and 20.9
  is more than 0.1 away from 20.05.
\<close>

lemma delta_examples:
  "js_gt (js_abs (js_sub (Fin 20) (Fin 20))) (js_literal 0.1) = False"
  "js_gt (js_abs (js_sub (Fin 20) (Fin (5643573283048653 / 281474976710656)))) (js_literal 0.1)
     = False"
  "js_gt (js_abs (js_sub (Fin (5643573283048653 / 281474976710656))
                         (Fin (2941413506626355 / 140737488355328)))) (js_literal 0.1)
     = True"
  "js_gt (js_abs (js_sub (Fin 20) (Fin (1413004383087493 / 70368744177664)))) (js_literal 0.1)
     = False"
  "js_gt (js_abs (js_sub (Fin (1413004383087493 / 70368744177664))
                         (Fin (5674535530486825 / 281474976710656)))) (js_literal 0.1)
     = False"
  "js_gt (js_abs (js_sub (Fin 20) (Fin (5674535530486825 / 281474976710656)))) (js_literal 0.1)
     = True"
  by (simp_all add: js_sub_def js_literal_examples)
     (simp_all add: round64_def floor_log_def pow2_def round_half_even_def Let_def)

text \<open>
  The reading 20.1 against the cached 20.0: the binary64 difference is
  0.10000000000000142, which exceeds the binary64 threshold 0.1, so the reading is flagged
  although its decimal distance from 20.0 is the threshold itself.
\<close>

lemma delta_rounding_example:
  "parseFloat (JStr ''20.1'') = Fin (2828823515942093 / 140737488355328)"
  "readingDelta (JNum (Fin 20)) (Fin (2828823515942093 / 140737488355328))
     = Fin (14073748835533 / 140737488355328)"
  "js_gt (readingDelta (JNum (Fin 20)) (Fin (2828823515942093 / 140737488355328)))
     (js_literal 0.1)"
proof -
  show "parseFloat (JStr ''20.1'') = Fin (2828823515942093 / 140737488355328)"
    by (simp add: parseFloat_def parseFloat_str_def read_sign_def is_ws_def
        read_unsigned_decimal_def is_radix_digit_def digit_val_def digits_value_def
        read_exponent_def pow10_def)
       (simp add: round64_def floor_log_def pow2_def round_half_even_def Let_def)
  show d: "readingDelta (JNum (Fin 20)) (Fin (2828823515942093 / 140737488355328))
             = Fin (14073748835533 / 140737488355328)"
    by (simp add: readingDelta_def js_sub_def)
       (simp add: round64_def floor_log_def pow2_def round_half_even_def Let_def)
  show "js_gt (readingDelta (JNum (Fin 20)) (Fin (2828823515942093 / 140737488355328)))
          (js_literal 0.1)"
    unfolding d by (simp add: js_literal_examples)
qed

text \<open>
  C2 (counterexample). The reading 20.0 is in the cache, and the readings 20.0, 20.08 and
  20.16 are fed with the threshold 0.1. Taken against the last store-worthy value 20.0,
  as the claim has it, the third reading is 0.16 away and would be flagged; the code flags
  none of the three, since each is less than 0.1 away from the reading before it.
\<close>

theorem threshold_against_stored_counterexample:
  "map store_flag
     (posted (feed (handleMqttMessage_part_001 no_later_arms) ''/device/d1/temperature''
                [JStr ''20.0'', JStr ''20.08'', JStr ''20.16''] thermo_cached))
     = [Some False, Some False, Some False]
   \<and> flags_against_last_stored 0.1 (Fin 20)
        (map parseFloat [JStr ''20.0'', JStr ''20.08'', JStr ''20.16''])
     = [False, False, True]"
proof -
  have "map store_flag
     (posted (feed (handleMqttMessage_part_001 no_later_arms) ''/device/d1/temperature''
                [JStr ''20.0'', JStr ''20.08'', JStr ''20.16''] thermo_cached))
     = map store_flag (posted thermo_cached)
         @ map Some (flags_against_previous 0.1 (cache_get thermo_cached ''t1'')
                       (map parseFloat [JStr ''20.0'', JStr ''20.08'', JStr ''20.16'']))"
    by (rule store_flags_of_feed [OF thermo_cached_facts(1,2)])
       (simp_all add: parseFloat_examples)
  then show ?thesis
    unfolding thermo_cached_facts(3,4)
    by (simp add: parseFloat_examples readingDelta_def delta_examples)
qed

text \<open>
  C2 (amended). For the readings 20.0, 20.05 and 20.9 with the threshold 0.1 and the
  reading 20.0 already in the cache, only the third reading is flagged store-worthy. The
  delta of each reading is computed, in binary64 arithmetic, against the cache entry left
  by the immediately preceding reading, because every reading overwrites the cache entry
  whether or not it was flagged; it is not computed against the last store-worthy value.
\<close>

theorem store_flag_against_previous_reading:
  assumes "prefix (''/device/'' @ device_id (dev st) @ ''/temperature'') topic"
    and "feature_id_of (dev st) ''temperature'' = Some i" and "i \<noteq> []"
    and "list_all (\<lambda>m. truthy m \<and> parseFloat m \<noteq> NaN) ms"
  shows "map store_flag (posted (feed (handleMqttMessage_part_001 later_arms) topic ms st))
           = map store_flag (posted st)
               @ map Some (flags_against_previous 0.1 (cache_get st i) (map parseFloat ms))
         \<and> map store_flag
             (posted (feed (handleMqttMessage_part_001 no_later_arms) ''/device/d1/temperature''
                        [JStr ''20.0'', JStr ''20.05'', JStr ''20.9''] thermo_cached))
           = [Some False, Some False, Some True]"
proof
  show "map store_flag (posted (feed (handleMqttMessage_part_001 later_arms) topic ms st))
           = map store_flag (posted st)
               @ map Some (flags_against_previous 0.1 (cache_get st i) (map parseFloat ms))"
    using assms by (rule store_flags_of_feed)
next
  have "map store_flag
     (posted (feed (handleMqttMessage_part_001 no_later_arms) ''/device/d1/temperature''
                [JStr ''20.0'', JStr ''20.05'', JStr ''20.9''] thermo_cached))
     = map store_flag (posted thermo_cached)
         @ map Some (flags_against_previous 0.1 (cache_get thermo_cached ''t1'')
                       (map parseFloat [JStr ''20.0'', JStr ''20.05'', JStr ''20.9'']))"
    by (rule store_flags_of_feed [OF thermo_cached_facts(1,2)])
       (simp_all add: parseFloat_examples)
  then show "map store_flag
     (posted (feed (handleMqttMessage_part_001 no_later_arms) ''/device/d1/temperature''
                [JStr ''20.0'', JStr ''20.05'', JStr ''20.9''] thermo_cached))
     = [Some False, Some False, Some True]"
    unfolding thermo_cached_facts(3,4)
    by (simp add: parseFloat_examples readingDelta_def delta_examples)
qed

theorem store_flag_against_previous_reading_witness:
  "prefix (''/device/'' @ device_id (dev thermo_cached) @ ''/temperature'') ''/device/d1/temperature''
   \<and> feature_id_of (dev thermo_cached) ''temperature'' = Some ''t1''
   \<and> list_all (\<lambda>m. truthy m \<and> parseFloat m \<noteq> NaN) [JStr ''20.08'', JStr ''20.16'']
   \<and> map store_flag
       (posted (feed (handleMqttMessage_part_001 no_later_arms) ''/device/d1/temperature''
                  [JStr ''20.08'', JStr ''20.16''] thermo_cached))
     = [Some False, Some False]"
proof -
  have n: "''t1'' \<noteq> []" by simp
  have t: "list_all (\<lambda>m. truthy m \<and> parseFloat m \<noteq> NaN) [JStr ''20.08'', JStr ''20.16'']"
    by (simp add: parseFloat_examples)
  note w = store_flag_against_previous_reading [OF thermo_cached_facts(1,2) n t, of no_later_arms]
  have "map store_flag
       (posted (feed (handleMqttMessage_part_001 no_later_arms) ''/device/d1/temperature''
                  [JStr ''20.08'', JStr ''20.16''] thermo_cached))
     = map store_flag (posted thermo_cached)
         @ map Some (flags_against_previous 0.1 (cache_get thermo_cached ''t1'')
                       (map parseFloat [JStr ''20.08'', JStr ''20.16'']))"
    using w by (rule conjunct1)
  then have "map store_flag
       (posted (feed (handleMqttMessage_part_001 no_later_arms) ''/device/d1/temperature''
                  [JStr ''20.08'', JStr ''20.16''] thermo_cached))
     = [Some False, Some False]"
    unfolding thermo_cached_facts(3,4)
    by (simp add: parseFloat_examples readingDelta_def delta_examples)
  then show ?thesis
    using thermo_cached_facts(1,2) t by simp
qed

section \<open>Properties of the outbound path\<close>

lemma redisLoop_skip:
  assumes "body e = ([], None)"
  shows "redisLoop body (xs @ e # ys) = redisLoop body (xs @ ys)"
proof (induction xs)
  case Nil
  show ?case using assms by (simp split: prod.splits)
next
  case (Cons x xs)
  then show ?case by (simp split: prod.splits option.splits)
qed

lemma pwmCommand_invalid:
  assumes "\<not> boolean_like v" and "parseInt v = NaN"
  shows "pwmCommand d channel v = ([], None)"
  using assms by (simp add: pwmCommand_def)

lemma handleRedisEntry_esp_pwm_invalid:
  assumes "\<not> boolean_like v" and "parseInt v = NaN"
  shows "handleRedisEntry_esp_pwm d (i, v) = ([], None)"
  using assms
  by (simp add: handleRedisEntry_esp_pwm_def pwmCommand_invalid split: option.splits list.splits)

lemma handleRedisEntry_part_001_invalid:
  assumes "\<not> boolean_like v" and "parseInt v = NaN" and "in_pwm_arm d i"
  shows "handleRedisEntry_part_001 d (i, v) = ([], None)"
proof -
  from assms(3) obtain f where f: "getFeatureByTypeOrNameOrId d i = Some f"
      "category f = Action" "''pwm'' \<in> set (types f)"
    by (auto simp: in_pwm_arm_def split: option.splits)
  have "handleRedisEntry_part_001 d (i, v)
          = (case tag_suffix ''pin:'' (types f) of
               None \<Rightarrow> ([], None)
             | Some pin \<Rightarrow> (if pin \<noteq> [] then pwmCommand d pin v else ([], None)))"
    using f by (simp add: handleRedisEntry_part_001_def split: option.splits)
  also have "\<dots> = ([], None)"
    using assms(1,2) by (simp add: pwmCommand_invalid split: option.splits)
  finally show ?thesis .
qed

text \<open>
  C7 (counterexample). The value \<^verbatim>\<open>#ff0000\<close> is neither boolean-like nor does it parse
  to a number, and the feature is a colour feature of the driver with pins: the entry is
  not skipped, a command is published for it.
\<close>

theorem non_numeric_value_published_counterexample:
  "handleRedisMessage_part_001 (Some [(''c1'', JStr ''#ff0000'')]) light_device
     = ([PublishMessage ''/device/d1/rgb''
           (Json [(''r'', JNum (Fin 255)), (''g'', JNum (Fin 0)), (''b'', JNum (Fin 0)),
                  (''fade'', JNum (Fin 1000))])], None)
   \<and> \<not> boolean_like (JStr ''#ff0000'') \<and> parseInt (JStr ''#ff0000'') = NaN"
  by (simp add: handleRedisMessage_part_001_def handleRedisEntry_part_001_def light_device_def
      getFeatureByTypeOrNameOrId_def matchesTypeOrId_def mk_feature_def is_neopixel_color_def
      hexToRgb_def tag_suffix_def boolean_like_def parseInt_def parseInt_str_def read_sign_def
      is_ws_def has_hex_prefix_def is_radix_digit_def digit_val_def digits_value_def)

text \<open>
  C7 (amended). An entry of a state-update batch that is handled by the PWM arm (in
  src/esp-pwm-driver/index.ts every entry; in the driver with pins an entry whose feature
  is an action tagged \<^verbatim>\<open>pwm\<close>) and whose value is neither boolean-like nor parses to an
  integer publishes no command and raises nothing, and the handler's result for the batch
  is its result for the batch without that entry: the commands of the other entries are
  published as if the invalid entry were not there. The numeric check does not apply to
  colour and brightness features.
\<close>

theorem invalid_pwm_value_skipped:
  assumes "\<not> boolean_like v" and "parseInt v = NaN"
  shows "handleRedisEntry_esp_pwm d (i, v) = ([], None)
         \<and> handleRedisMessage_esp_pwm (Some (xs @ (i, v) # ys)) d
             = handleRedisMessage_esp_pwm (Some (xs @ ys)) d
         \<and> (in_pwm_arm d' i' \<longrightarrow>
              handleRedisEntry_part_001 d' (i', v) = ([], None)
              \<and> handleRedisMessage_part_001 (Some (xs' @ (i', v) # ys')) d'
                  = handleRedisMessage_part_001 (Some (xs' @ ys')) d')"
proof (intro conjI impI)
  show e: "handleRedisEntry_esp_pwm d (i, v) = ([], None)"
    using assms by (rule handleRedisEntry_esp_pwm_invalid)
  show "handleRedisMessage_esp_pwm (Some (xs @ (i, v) # ys)) d
          = handleRedisMessage_esp_pwm (Some (xs @ ys)) d"
    by (simp add: handleRedisMessage_esp_pwm_def redisLoop_skip [where body = "handleRedisEntry_esp_pwm d", OF e])
next
  assume a: "in_pwm_arm d' i'"
  show e: "handleRedisEntry_part_001 d' (i', v) = ([], None)"
    using assms a by (rule handleRedisEntry_part_001_invalid)
  show "handleRedisMessage_part_001 (Some (xs' @ (i', v) # ys')) d'
          = handleRedisMessage_part_001 (Some (xs' @ ys')) d'"
    by (simp add: handleRedisMessage_part_001_def redisLoop_skip [where body = "handleRedisEntry_part_001 d'", OF e])
qed

lemma pwm_device_valid_entries:
  "handleRedisMessage_esp_pwm (Some [(''f1'', JStr ''10''), (''f3'', JBool True)]) pwm_device
     = ([PublishMessage ''/device/d1/pwm/1'' (Json [(''value'', JNum (Fin 25)), (''fade'', JNum (Fin 500))]),
         PublishMessage ''/device/d1/pwm/3'' (Json [(''value'', JNum (Fin 255)), (''fade'', JNum (Fin 0))])],
        None)"
  by (simp add: handleRedisMessage_esp_pwm_def handleRedisEntry_esp_pwm_def pwm_device_def
      getFeatureByTypeOrNameOrId_def matchesTypeOrId_def mk_feature_def
      extractNumberFromArray_def List.map_filter_def pwmCommand_def boolean_like_def
      getPWMFadeTime_def conf_get_def nullish_or_def not_nullish_def
      parseInt_def parseInt_str_def read_sign_def is_ws_def has_hex_prefix_def is_radix_digit_def
      digit_val_def digits_value_def positive_to_string_examples Let_def)

lemma light_device_valid_entries:
  "handleRedisMessage_part_001 (Some [(''p1'', JStr ''10''), (''c1'', JStr ''#ff0000'')]) light_device
     = ([PublishMessage ''/device/d1/pwm/1'' (Json [(''value'', JNum (Fin 25)), (''fade'', JNum (Fin 500))]),
         PublishMessage ''/device/d1/rgb''
           (Json [(''r'', JNum (Fin 255)), (''g'', JNum (Fin 0)), (''b'', JNum (Fin 0)),
                  (''fade'', JNum (Fin 1000))])],
        None)"
  by (simp add: handleRedisMessage_part_001_def handleRedisEntry_part_001_def light_device_def
      getFeatureByTypeOrNameOrId_def matchesTypeOrId_def mk_feature_def tag_suffix_def
      is_neopixel_color_def hexToRgb_def
      pwmCommand_def boolean_like_def getPWMFadeTime_def conf_get_def nullish_or_def
      not_nullish_def parseInt_def parseInt_str_def read_sign_def is_ws_def has_hex_prefix_def
      is_radix_digit_def digit_val_def digits_value_def Let_def)

text \<open>
  White space before the digits is skipped, the no-break space included, and the digits
  before the first other character are read.
\<close>

lemma parseInt_examples:
  "parseInt (JStr ''abc'') = NaN"
  "parseInt (JStr [CHR 0xA0, CHR ''1'', CHR ''0'']) = Fin 10"
  "parseInt (JStr ''12px'') = Fin 12"
  "parseInt (JBool True) = NaN"
  by (simp_all add: parseInt_def parseInt_str_def read_sign_def is_ws_def has_hex_prefix_def
      is_radix_digit_def digit_val_def digits_value_def)

text \<open>
  A number is first written as a string: \<open>10 ^ 21\<close> is written \<^verbatim>\<open>1e+21\<close>, which
  reads as 1.
\<close>

lemma round64_large_examples:
  "round64 1000000000000000000000 = Fin 1000000000000000000000"
  "round64 2000000000000000000000 = Fin 2000000000000000000000"
  "round64 10000000000000000000000 = Fin 10000000000000000000000"
  by (simp_all add: round64_def floor_log_def pow2_def round_half_even_def Let_def)

lemma parseInt_of_large_number: "parseInt (JNum (Fin 1000000000000000000000)) = Fin 1"
proof -
  have "closest 1000000000000000000000 1 (candidates 1000000000000000000000 1) = Some (1, 22)"
    by (simp add: candidates_def fits_def floor_log_def pow10_def round64_large_examples)
  then have "shortest 1000000000000000000000 1 17 = (1, 1, 22)" by (rule shortest_first)
  then have "to_string (JNum (Fin 1000000000000000000000)) = ''1e+21''"
    by (simp add: positive_to_string_def)
  then show ?thesis
    unfolding parseInt_def
    by (simp add: parseInt_str_def read_sign_def is_ws_def has_hex_prefix_def
        is_radix_digit_def digit_val_def digits_value_def)
qed

theorem invalid_pwm_value_skipped_witness:
  "\<not> boolean_like (JStr ''abc'') \<and> parseInt (JStr ''abc'') = NaN
   \<and> in_pwm_arm light_device ''p2''
   \<and> handleRedisMessage_esp_pwm
       (Some [(''f1'', JStr ''10''), (''f2'', JStr ''abc''), (''f3'', JBool True)]) pwm_device
     = ([PublishMessage ''/device/d1/pwm/1'' (Json [(''value'', JNum (Fin 25)), (''fade'', JNum (Fin 500))]),
         PublishMessage ''/device/d1/pwm/3'' (Json [(''value'', JNum (Fin 255)), (''fade'', JNum (Fin 0))])],
        None)
   \<and> handleRedisMessage_part_001
       (Some [(''p1'', JStr ''10''), (''p2'', JStr ''abc''), (''c1'', JStr ''#ff0000'')]) light_device
     = ([PublishMessage ''/device/d1/pwm/1'' (Json [(''value'', JNum (Fin 25)), (''fade'', JNum (Fin 500))]),
         PublishMessage ''/device/d1/rgb''
           (Json [(''r'', JNum (Fin 255)), (''g'', JNum (Fin 0)), (''b'', JNum (Fin 0)),
                  (''fade'', JNum (Fin 1000))])],
        None)"
proof -
  have b: "\<not> boolean_like (JStr ''abc'')" by (simp add: boolean_like_def)
  have p: "parseInt (JStr ''abc'') = NaN" by (rule parseInt_examples(1))
  have a: "in_pwm_arm light_device ''p2''"
    by (simp add: in_pwm_arm_def light_device_def getFeatureByTypeOrNameOrId_def
        matchesTypeOrId_def mk_feature_def)
  note w = invalid_pwm_value_skipped [OF b p, of pwm_device "''f2''" "[(''f1'', JStr ''10'')]"
      "[(''f3'', JBool True)]" light_device "''p2''" "[(''p1'', JStr ''10'')]"
      "[(''c1'', JStr ''#ff0000'')]"]
  have one: "handleRedisMessage_esp_pwm
       (Some [(''f1'', JStr ''10''), (''f2'', JStr ''abc''), (''f3'', JBool True)]) pwm_device
       = handleRedisMessage_esp_pwm (Some [(''f1'', JStr ''10''), (''f3'', JBool True)]) pwm_device"
    using w by simp
  have two: "handleRedisMessage_part_001
       (Some [(''p1'', JStr ''10''), (''p2'', JStr ''abc''), (''c1'', JStr ''#ff0000'')]) light_device
       = handleRedisMessage_part_001 (Some [(''p1'', JStr ''10''), (''c1'', JStr ''#ff0000'')])
           light_device"
    using w a by simp
  show ?thesis
    unfolding one two pwm_device_valid_entries light_device_valid_entries
    using b p a by simp
qed

text \<open>
  C8. The state-update handler of the driver with pins receives a batch whose second
  entry sets a colour feature to the string \<^verbatim>\<open>blue\<close>: \<^verbatim>\<open>hexToRgb\<close> raises, nothing
  catches the exception, the handler ends with it after the first command, and the
  command of the third entry is never published.
\<close>

theorem invalid_color_raises:
  "handleRedisMessage_part_001
     (Some [(''p1'', JStr ''10''), (''c1'', JStr ''blue''), (''p2'', JStr ''20'')]) light_device
   = ([PublishMessage ''/device/d1/pwm/1'' (Json [(''value'', JNum (Fin 25)), (''fade'', JNum (Fin 500))])],
      Some (Error ''Invalid hex color string''))"
  by (simp add: handleRedisMessage_part_001_def handleRedisEntry_part_001_def light_device_def
      getFeatureByTypeOrNameOrId_def matchesTypeOrId_def mk_feature_def tag_suffix_def
      is_neopixel_color_def hexToRgb_def
      pwmCommand_def boolean_like_def getPWMFadeTime_def conf_get_def nullish_or_def
      not_nullish_def parseInt_def parseInt_str_def read_sign_def is_ws_def has_hex_prefix_def
      is_radix_digit_def digit_val_def digits_value_def Let_def)

section \<open>Properties of the liveness monitor\<close>

lemma offlineTimeoutStart_unarmed:
  assumes "unarmed st"
  shows "armed (offlineTimeoutStart clear st)"
  using assms
  by (cases clear)
     (simp_all add: unarmed_def armed_def offlineTimeoutStart_def clearTimeout_def setTimeout_def
        timers_of_def)

lemma armed_scheduled:
  assumes "armed st"
  obtains h1 h2 where "requestStatusTimeout st = Some h1" "setOffineTimeout st = Some h2"
    "timers_of RequestStatus st = [h1]" "timers_of SetOffline st = [h2]"
  using assms by (auto simp: armed_def split: option.splits)

lemma offlineTimeoutStart_keep:
  assumes "armed st"
  shows "offlineTimeoutStart False st = st"
  using assms by (auto simp: armed_def offlineTimeoutStart_def split: option.splits)

lemma armed_cleared:
  assumes "armed st"
  shows "scheduled (clearTimeout (requestStatusTimeout st) (clearTimeout (setOffineTimeout st) st)) = []"
proof -
  from assms obtain h1 h2 where h: "requestStatusTimeout st = Some h1" "setOffineTimeout st = Some h2"
      "timers_of RequestStatus st = [h1]" "timers_of SetOffline st = [h2]"
    by (rule armed_scheduled)
  have "\<And>t. t \<in> set (scheduled st) \<Longrightarrow> fst t = h1 \<or> fst t = h2"
  proof -
    fix t assume t: "t \<in> set (scheduled st)"
    show "fst t = h1 \<or> fst t = h2"
    proof (cases "snd t")
      case RequestStatus
      with t have "fst t \<in> set (timers_of RequestStatus st)"
        by (auto simp: timers_of_def)
      then show ?thesis using h(3) by simp
    next
      case SetOffline
      with t have "fst t \<in> set (timers_of SetOffline st)"
        by (auto simp: timers_of_def)
      then show ?thesis using h(4) by simp
    qed
  qed
  then have "filter (\<lambda>t. fst t \<noteq> h1) (filter (\<lambda>t. fst t \<noteq> h2) (scheduled st)) = []"
    by (auto simp: filter_empty_conv)
  then show ?thesis using h(1,2) by (simp add: clearTimeout_def)
qed

lemma offlineTimeoutStart_rearm:
  assumes "armed st"
  shows "armed (offlineTimeoutStart True st)"
proof -
  let ?c = "(clearTimeout (requestStatusTimeout st) (clearTimeout (setOffineTimeout st) st))
              \<lparr>setOffineTimeout := None, requestStatusTimeout := None\<rparr>"
  have "unarmed ?c" using armed_cleared [OF assms] by (simp add: unarmed_def)
  then have "armed (offlineTimeoutStart False ?c)" by (rule offlineTimeoutStart_unarmed)
  moreover have "offlineTimeoutStart True st = offlineTimeoutStart False ?c"
    by (simp add: offlineTimeoutStart_def)
  ultimately show ?thesis by simp
qed

lemma rearm_on_message_armed:
  assumes "unarmed st \<or> armed st"
  shows "armed (rearm_on_message t st)"
proof -
  let ?s = "if t = Mqtt then offlineTimeoutStart True st else st"
  have "unarmed ?s \<or> armed ?s"
    using assms offlineTimeoutStart_unarmed [of st True] offlineTimeoutStart_rearm [of st]
    by auto
  then have "armed (offlineTimeoutStart False ?s)"
    using offlineTimeoutStart_unarmed [of ?s False] offlineTimeoutStart_keep [of ?s]
    by auto
  then show ?thesis by (simp add: rearm_on_message_def)
qed

lemma receive_armed:
  assumes "unarmed st \<or> armed st" and "ts \<noteq> []"
  shows "armed (receive ts st)"
  using assms
proof (induction ts arbitrary: st)
  case Nil
  then show ?case by simp
next
  case (Cons t ts)
  have a: "armed (rearm_on_message t st)"
    using Cons.prems(1) by (rule rearm_on_message_armed)
  show ?case
  proof (cases "ts = []")
    case True
    then show ?thesis using a by (simp add: receive_def)
  next
    case False
    have "armed (receive ts (rearm_on_message t st))"
      using a False by (intro Cons.IH) simp_all
    then show ?thesis by (simp add: receive_def)
  qed
qed

text \<open>
  C4. The monitor is armed and the request-status timer fires with no message in
  between. The status request is sent, but the closing \<^verbatim>\<open>offlineTimeoutStart(false)\<close>
  finds the variable \<^verbatim>\<open>requestStatusTimeout\<close> still holding the handle of the timer that
  has just fired, and schedules nothing: no request-status timer is left, in either
  variant of the offline closure. In src/esp-pwm-driver/index.ts the same happens to the
  offline timer, after which no timer is scheduled at all; in src/unnamed/part_001 the
  offline closure clears both variables and so arms both timers again.
\<close>

theorem probe_timer_not_rescheduled:
  "fire False ''d1'' 0 (offlineTimeoutStart True liveness_init)
     = \<lparr>setOffineTimeout = Some 1, requestStatusTimeout = Some 0, scheduled = [(1, SetOffline)],
        next_handle = 2, sent = [PublishMessage ''/device/d1/request'' (Text ''status'')]\<rparr>
   \<and> timers_of RequestStatus (fire False ''d1'' 0 (offlineTimeoutStart True liveness_init)) = []
   \<and> timers_of RequestStatus (fire True ''d1'' 0 (offlineTimeoutStart True liveness_init)) = []
   \<and> scheduled (fire False ''d1'' 1 (fire False ''d1'' 0 (offlineTimeoutStart True liveness_init))) = []
   \<and> scheduled (fire True ''d1'' 1 (fire True ''d1'' 0 (offlineTimeoutStart True liveness_init)))
       = [(2, RequestStatus), (3, SetOffline)]"
  by (simp add: fire_def timerCallback_def offlineTimeoutStart_def clearTimeout_def setTimeout_def
      liveness_init_def timers_of_def)

text \<open>
  As long as no timer fires between them, messages keep the monitor armed. The driver
  starts with no timer armed, or has both timers armed; after every non-empty sequence of
  messages handled in the paired phase, in any order of \<^verbatim>\<open>mqtt\<close> messages (rearm with
  clearing, then rearm without clearing, in the same turn) and other messages (rearm
  without clearing only), each of the two variables holds a handle, and exactly one
  request-status timer and exactly one offline timer are scheduled, namely the ones the
  variables hold. No slot is ever scheduled twice.
\<close>

lemma messages_keep_timers_armed:
  assumes "unarmed st \<or> armed st" and "ts \<noteq> []"
  shows "\<exists>h1 h2. requestStatusTimeout (receive ts st) = Some h1
           \<and> setOffineTimeout (receive ts st) = Some h2
           \<and> timers_of RequestStatus (receive ts st) = [h1]
           \<and> timers_of SetOffline (receive ts st) = [h2]"
proof -
  have "armed (receive ts st)" using assms by (rule receive_armed)
  then show ?thesis by (rule armed_scheduled) blast
qed

text \<open>
  C5. A state update arrives and arms both timers; no message follows for the
  request-status interval and the request-status timer fires; then a second state update
  arrives. Its \<^verbatim>\<open>offlineTimeoutStart(false)\<close> finds both variables holding a handle and
  schedules nothing, so after the second message the request-status timer is unset. When
  the offline timer has fired as well, messages other than \<^verbatim>\<open>mqtt\<close> leave both timers
  unset. Only an \<^verbatim>\<open>mqtt\<close> message, which clears the variables, arms them again.
\<close>

theorem message_after_fired_timer_leaves_timer_unset:
  "timers_of RequestStatus (receive [Redis] (fire False ''d1'' 0 (receive [Redis] liveness_init))) = []
   \<and> requestStatusTimeout (receive [Redis] (fire False ''d1'' 0 (receive [Redis] liveness_init)))
       = Some 0
   \<and> scheduled (receive [Redis, OtherType]
                  (fire False ''d1'' 1 (fire False ''d1'' 0 (receive [Redis] liveness_init)))) = []
   \<and> scheduled (receive [Mqtt]
                  (fire False ''d1'' 1 (fire False ''d1'' 0 (receive [Redis] liveness_init))))
       = [(2, RequestStatus), (3, SetOffline)]"
  by (simp add: receive_def rearm_on_message_def fire_def timerCallback_def offlineTimeoutStart_def
      clearTimeout_def setTimeout_def liveness_init_def timers_of_def)

section \<open>Properties of the re-authentication\<close>

lemma getFritzBoxSID_counter:
  assumes "loginTryCount st = JUndefined \<or> loginTryCount st = JNum NaN"
  shows "fst (getFritzBoxSID t net st) \<noteq> ProcessExit
         \<and> (loginTryCount (snd (getFritzBoxSID t net st)) = JUndefined
            \<or> loginTryCount (snd (getFritzBoxSID t net st)) = JNum NaN)"
  using assms
  by (cases net) (auto simp: getFritzBoxSID_def loginExchange_def js_ge_def Let_def)

lemma login_calls_never_exit:
  assumes "loginTryCount st = JUndefined \<or> loginTryCount st = JNum NaN"
  shows "ProcessExit \<notin> set (fst (login_calls cs st))"
  using assms
proof (induction cs arbitrary: st)
  case Nil
  then show ?case by simp
next
  case (Cons c cs)
  obtain r st1 where g: "getFritzBoxSID (fst c) (snd c) st = (r, st1)"
    by (cases "getFritzBoxSID (fst c) (snd c) st")
  from getFritzBoxSID_counter [OF Cons.prems, of "fst c" "snd c"] g
  have r: "r \<noteq> ProcessExit" and c: "loginTryCount st1 = JUndefined \<or> loginTryCount st1 = JNum NaN"
    by simp_all
  obtain rs st2 where l: "login_calls cs st1 = (rs, st2)"
    by (cases "login_calls cs st1")
  from Cons.IH [OF c] l have "ProcessExit \<notin> set rs" by simp
  with r g l show ?case by simp
qed

text \<open>
  The cooldown. Clock readings are integers; their difference is exact in binary64 as long
  as it is below \<open>2 ^ 53\<close>, which holds for every pair of time values.
\<close>

lemma clock_difference:
  assumes "\<bar>t - t0\<bar> < 2 ^ 53"
  shows "js_sub (Fin (real_of_int t)) (Fin (real_of_int t0)) = Fin (real_of_int (t - t0))"
proof -
  have "js_sub (Fin (real_of_int t)) (Fin (real_of_int t0)) = round64 (real_of_int (t - t0))"
    by (simp add: js_sub_def)
  then show ?thesis using assms by (simp only: round64_int)
qed

lemma getFritzBoxSID_cooldown:
  assumes "lastLoginTry st = JNum (Fin (real_of_int t0))" and "t0 \<noteq> 0"
    and "t < t0 + 30000" and "\<bar>t - t0\<bar> < 2 ^ 53"
  shows "getFritzBoxSID t net st = (Returned False, st)"
proof -
  have "real_of_int (t - t0) < 30000"
    using assms(3) by linarith
  then have "js_lt (js_sub (Fin (real_of_int t)) (Fin (real_of_int t0))) (Fin (30 * 1000))"
    unfolding clock_difference [OF assms(4)] by (simp add: js_lt_def)
  then show ?thesis
    using assms(1,2) by (simp add: getFritzBoxSID_def)
qed

lemma getFritzBoxSID_retry:
  assumes "lastLoginTry st = JNum (Fin (real_of_int t0))" and "t0 + 30000 \<le> t"
    and "\<bar>t - t0\<bar> < 2 ^ 53"
    and "loginTryCount st = JUndefined \<or> loginTryCount st = JNum NaN"
  shows "getFritzBoxSID t InvalidSid st
           = (Returned False,
              st\<lparr>lastLoginTry := JNum (Fin (real_of_int t)), loginTryCount := JNum NaN,
                 fetches := fetches st + 2, sid := Some ''0000000000000000''\<rparr>)"
proof -
  have "\<not> (real_of_int (t - t0) < 30000)"
    using assms(2) by linarith
  then have "\<not> js_lt (js_sub (Fin (real_of_int t)) (Fin (real_of_int t0))) (Fin (30 * 1000))"
    unfolding clock_difference [OF assms(3)] by (simp add: js_lt_def)
  then show ?thesis
    using assms(1,4)
    by (auto simp: getFritzBoxSID_def loginExchange_def js_ge_def Let_def)
qed

text \<open>
  C9. From the start of the process the function is called 21 times, 30 seconds apart,
  and every login is rejected. The counter \<^verbatim>\<open>loginTryCount\<close> starts undefined, its
  increment makes it NaN, and \<^verbatim>\<open>NaN >= 20\<close> is false: the 21st call returns false
  after another login attempt instead of ending the process, and 42 requests have been
  sent to the endpoint.
\<close>

theorem retry_ceiling_never_reached:
  "fst (login_calls (retry_schedule 21) login_init) = replicate 21 (Returned False)
   \<and> fetches (snd (login_calls (retry_schedule 21) login_init)) = 42
   \<and> loginTryCount (snd (login_calls (retry_schedule 21) login_init)) = JNum NaN"
  by (simp add: retry_schedule_def login_init_def upt_rec numeral_eq_Suc getFritzBoxSID_def
        loginExchange_def js_ge_def js_lt_def js_sub_def Let_def)

end
